theory Spec2Isabelle
  imports Complex_Main
begin

text \<open>
  A model of the Gemini client library and its command line: the types of
  \<^verbatim>\<open>gemini/types.go\<close>, the client of \<^verbatim>\<open>gemini/client.go\<close> (\<^verbatim>\<open>New\<close>, \<^verbatim>\<open>Generate\<close>,
  \<^verbatim>\<open>doRequest\<close>) and \<^verbatim>\<open>main\<close> of \<^verbatim>\<open>cmd/gemini/main.go\<close>. The sources hold two revisions
  of each file; the one modelled is the later: \<^verbatim>\<open>New\<close> returns an error, \<^verbatim>\<open>Generate\<close> validates
  its parameters and returns a parsed \<^verbatim>\<open>Response\<close>, \<^verbatim>\<open>Text\<close> concatenates the parts, \<^verbatim>\<open>main\<close>
  joins its arguments.

  Effects are explicit: a function that can call the HTTP executor returns, next to its
  value, the list of what it did. Errors are values of a datatype with one constructor for
  each place where the code makes an error. Go's \<^verbatim>\<open>int\<close> is \<^typ>\<open>int\<close>: the code compares and
  prints integers and does no arithmetic on them.
\<close>

section \<open>Go strings: bytes, runes and the library functions the client calls\<close>

text \<open>
  A Go string is a sequence of bytes, here a \<^typ>\<open>string\<close> (8-bit characters). The client
  calls \<^verbatim>\<open>strings.TrimSpace\<close> and \<^verbatim>\<open>strings.HasPrefix\<close>; both are modelled at the byte
  level, with the UTF-8 decoding of package \<^verbatim>\<open>unicode/utf8\<close> written out.
\<close>

type_synonym rune = nat

definition RuneError :: rune where
  "RuneError = 0xFFFD"

text \<open>
  \<^verbatim>\<open>utf8.DecodeRuneInString\<close>: the rune at the front of the string and its width. An empty
  string gives \<open>(RuneError, 0)\<close>, an invalid encoding \<open>(RuneError, 1)\<close>. The lead byte fixes
  the size and the accepted range of the second byte (the tables \<^verbatim>\<open>first\<close> and
  \<^verbatim>\<open>acceptRanges\<close>).
\<close>

definition DecodeRuneInString :: "string \<Rightarrow> rune \<times> nat" where
  "DecodeRuneInString s =
     (case map of_char s :: nat list of
        [] \<Rightarrow> (RuneError, 0)
      | s0 # rest \<Rightarrow>
          if s0 < 0x80 then (s0, 1)
          else if s0 < 0xC2 \<or> 0xF4 < s0 then (RuneError, 1)
          else
            let sz = (if s0 < 0xE0 then 2 else if s0 < 0xF0 then 3 else (4::nat));
                lo = (if s0 = 0xE0 then 0xA0 else if s0 = 0xF0 then 0x90 else 0x80);
                hi = (if s0 = 0xED then 0x9F else if s0 = 0xF4 then 0x8F else 0xBF)
            in if length s < sz then (RuneError, 1)
               else let s1 = rest ! 0 in
               if s1 < lo \<or> hi < s1 then (RuneError, 1)
               else if sz \<le> 2 then ((s0 mod 32) * 64 + s1 mod 64, 2)
               else let s2 = rest ! 1 in
               if s2 < 0x80 \<or> 0xBF < s2 then (RuneError, 1)
               else if sz \<le> 3 then ((s0 mod 16) * 4096 + (s1 mod 64) * 64 + s2 mod 64, 3)
               else let s3 = rest ! 2 in
               if s3 < 0x80 \<or> 0xBF < s3 then (RuneError, 1)
               else ((s0 mod 8) * 262144 + (s1 mod 64) * 4096 + (s2 mod 64) * 64 + s3 mod 64, 4))"

text \<open>\<^verbatim>\<open>utf8.RuneStart\<close>: the byte is not a continuation byte \<^verbatim>\<open>10xxxxxx\<close>.\<close>

definition RuneStart :: "char \<Rightarrow> bool" where
  "RuneStart b = (\<not> (0x80 \<le> (of_char b :: nat) \<and> (of_char b :: nat) \<le> 0xBF))"

text \<open>
  \<^verbatim>\<open>utf8.DecodeLastRuneInString\<close>: the rune at the end of the string. It steps back over at
  most three bytes to a byte that can start a rune (\<^verbatim>\<open>lim = end - UTFMax\<close>), decodes from
  there, and answers \<open>(RuneError, 1)\<close> unless that rune ends exactly at the end.
\<close>

definition lastRuneStart :: "string \<Rightarrow> nat" where
  "lastRuneStart s =
     (let end = length s in
      if 2 \<le> end \<and> RuneStart (s ! (end - 2)) then end - 2
      else if 3 \<le> end \<and> RuneStart (s ! (end - 3)) then end - 3
      else if 4 \<le> end \<and> RuneStart (s ! (end - 4)) then end - 4
      else end - 5)"

definition DecodeLastRuneInString :: "string \<Rightarrow> rune \<times> nat" where
  "DecodeLastRuneInString s =
     (if s = [] then (RuneError, 0)
      else if (of_char (last s) :: nat) < 0x80 then (of_char (last s), 1)
      else case DecodeRuneInString (drop (lastRuneStart s) s) of
             (r, w) \<Rightarrow> if lastRuneStart s + w \<noteq> length s then (RuneError, 1) else (r, w))"

text \<open>\<^verbatim>\<open>unicode.IsSpace\<close>: the code points with Unicode's White Space property.\<close>

definition IsSpace :: "rune \<Rightarrow> bool" where
  "IsSpace r =
     ((0x09 \<le> r \<and> r \<le> 0x0D) \<or> r = 0x20 \<or> r = 0x85 \<or> r = 0xA0 \<or> r = 0x1680 \<or>
      (0x2000 \<le> r \<and> r \<le> 0x200A) \<or> r = 0x2028 \<or> r = 0x2029 \<or> r = 0x202F \<or>
      r = 0x205F \<or> r = 0x3000)"

lemma DecodeRuneInString_size:
  assumes "s \<noteq> []"
  shows "1 \<le> snd (DecodeRuneInString s) \<and> snd (DecodeRuneInString s) \<le> length s"
proof -
  obtain a list where s: "s = a # list" using assms by (cases s) auto
  let ?b = "of_char a :: nat"
  consider "?b < 0x80" | "0x80 \<le> ?b \<and> (?b < 0xC2 \<or> 0xF4 < ?b)" | "0xC2 \<le> ?b \<and> ?b < 0xE0"
    | "0xE0 \<le> ?b \<and> ?b < 0xF0" | "0xF0 \<le> ?b \<and> ?b \<le> 0xF4"
    by linarith
  then show ?thesis
  proof cases
    case 1 then show ?thesis by (simp add: s DecodeRuneInString_def)
  next
    case 2 then show ?thesis by (auto simp add: s DecodeRuneInString_def)
  next
    case 3 then show ?thesis by (simp add: s DecodeRuneInString_def Let_def Suc_le_eq)
  next
    case 4 then show ?thesis by (simp add: s DecodeRuneInString_def Let_def Suc_le_eq)
  next
    case 5 then show ?thesis by (simp add: s DecodeRuneInString_def Let_def Suc_le_eq)
  qed
qed

lemma lastRuneStart_less: "s \<noteq> [] \<Longrightarrow> lastRuneStart s < length s"
  by (auto simp: lastRuneStart_def Let_def)

lemma DecodeLastRuneInString_size:
  assumes "s \<noteq> []"
  shows "1 \<le> snd (DecodeLastRuneInString s) \<and> snd (DecodeLastRuneInString s) \<le> length s"
proof (cases "(of_char (last s) :: nat) < 0x80")
  case True
  with assms show ?thesis by (simp add: DecodeLastRuneInString_def Suc_le_eq)
next
  case False
  obtain r w where d: "DecodeRuneInString (drop (lastRuneStart s) s) = (r, w)"
    by (cases "DecodeRuneInString (drop (lastRuneStart s) s)")
  have "drop (lastRuneStart s) s \<noteq> []"
    using lastRuneStart_less [OF assms] by simp
  from DecodeRuneInString_size [OF this] d have "1 \<le> w" by simp
  with assms False d show ?thesis
    by (auto simp: DecodeLastRuneInString_def Suc_le_eq)
qed

text \<open>The runes of a string, as \<^verbatim>\<open>for _, r := range s\<close> yields them.\<close>

function runes :: "string \<Rightarrow> rune list" where
  "runes s =
     (if s = [] then []
      else case DecodeRuneInString s of (r, w) \<Rightarrow> r # runes (drop w s))"
  by pat_completeness auto
termination
  apply (relation "measure length")
   apply simp
  subgoal for s
    using DecodeRuneInString_size [of s] by (cases "DecodeRuneInString s") auto
  done

text \<open>
  \<^verbatim>\<open>strings.TrimLeftFunc\<close> and \<^verbatim>\<open>strings.TrimRightFunc\<close>: drop the runes satisfying \<open>f\<close> from
  the front (decoding forwards) and from the end (decoding backwards).
\<close>

function TrimLeftFunc :: "string \<Rightarrow> (rune \<Rightarrow> bool) \<Rightarrow> string" where
  "TrimLeftFunc s f =
     (if s = [] then []
      else case DecodeRuneInString s of
             (r, w) \<Rightarrow> if f r then TrimLeftFunc (drop w s) f else s)"
  by pat_completeness auto
termination
  apply (relation "measure (\<lambda>(s, f). length s)")
   apply simp
  subgoal for s
    using DecodeRuneInString_size [of s] by (cases "DecodeRuneInString s") auto
  done

function TrimRightFunc :: "string \<Rightarrow> (rune \<Rightarrow> bool) \<Rightarrow> string" where
  "TrimRightFunc s f =
     (if s = [] then []
      else case DecodeLastRuneInString s of
             (r, w) \<Rightarrow> if f r then TrimRightFunc (take (length s - w) s) f else s)"
  by pat_completeness auto
termination
  apply (relation "measure (\<lambda>(s, f). length s)")
   apply simp
  subgoal for s
    using DecodeLastRuneInString_size [of s] by (cases "DecodeLastRuneInString s") auto
  done

declare runes.simps [simp del] TrimLeftFunc.simps [simp del] TrimRightFunc.simps [simp del]

text \<open>
  \<^verbatim>\<open>strings.TrimSpace\<close>. Its fast path over ASCII bytes agrees with
  \<^verbatim>\<open>TrimFunc(s, unicode.IsSpace)\<close>, to which it falls back at the first byte \<open>\<ge> 0x80\<close>.
\<close>

definition TrimSpace :: "string \<Rightarrow> string" where
  "TrimSpace s = TrimRightFunc (TrimLeftFunc s IsSpace) IsSpace"

text \<open>\<^verbatim>\<open>strings.HasPrefix\<close>: \<^verbatim>\<open>len(s) >= len(prefix) && s[:len(prefix)] == prefix\<close>.\<close>

definition HasPrefix :: "string \<Rightarrow> string \<Rightarrow> bool" where
  "HasPrefix s pre = (length s \<ge> length pre \<and> take (length pre) s = pre)"

section \<open>Request and response types (\<^verbatim>\<open>gemini/types.go\<close>)\<close>

text \<open>
  A \<^verbatim>\<open>float64\<close> is a finite value, an infinity or NaN; the finite values are read as
  reals. Only comparison with zero and serialization are applied to it. A pointer field is
  an \<open>option\<close>. The slice \<^verbatim>\<open>Tools\<close> is an \<open>option\<close> of a list: \<open>None\<close> is the nil slice and
  \<open>Some []\<close> the empty slice that is not nil, which \<^verbatim>\<open>omitempty\<close> leaves out as it does the
  nil slice. The other slices are lists: \<^verbatim>\<open>Contents\<close> and \<^verbatim>\<open>Parts\<close> have no \<^verbatim>\<open>omitempty\<close>, a
  nil one is written \<^verbatim>\<open>null\<close> and an empty one \<^verbatim>\<open>[]\<close> and each is read back as what it was, so
  taking the two for one does not change whether a request comes back equal; the slices of
  a response are only measured and indexed.
\<close>

datatype float64 = Finite real | PosInf | NegInf | NaN

text \<open>\<^verbatim>\<open>t < 0\<close> and \<^verbatim>\<open>t >= 0\<close> on \<^verbatim>\<open>float64\<close>: every comparison with NaN is false.\<close>

fun ltZero :: "float64 \<Rightarrow> bool" where
  "ltZero (Finite r) = (r < 0)"
| "ltZero NegInf = True"
| "ltZero PosInf = False"
| "ltZero NaN = False"

fun geZero :: "float64 \<Rightarrow> bool" where
  "geZero (Finite r) = (0 \<le> r)"
| "geZero PosInf = True"
| "geZero NegInf = False"
| "geZero NaN = False"

record Part =
  Part_Text :: string

record Content =
  Content_Parts :: "Part list"

record GenerationConfig =
  MaxOutputTokens :: int
  Temperature :: "float64 option"

record Tool =
  Tool_GoogleSearch :: "unit option"

record Request =
  Request_Contents :: "Content list"
  Request_GenerationConfig :: GenerationConfig
  Request_Tools :: "Tool list option"

record ResponsePart =
  ResponsePart_Text :: string

record ResponseContent =
  ResponseContent_Parts :: "ResponsePart list"
  ResponseContent_Role :: string

record SafetyRating =
  Category :: string
  Probability :: string

record Candidate =
  Candidate_Content :: ResponseContent
  FinishReason :: string
  SafetyRatings :: "SafetyRating list"

record UsageMetadata =
  PromptTokenCount :: int
  CandidatesTokenCount :: int
  TotalTokenCount :: int

record Response =
  Candidates :: "Candidate list"
  Response_UsageMetadata :: UsageMetadata

text \<open>
  \<^verbatim>\<open>func (r *Response) Text() string\<close>, in the revision that concatenates the parts of the
  first candidate; the loop writing each part to the \<^verbatim>\<open>strings.Builder\<close> is the left fold.
\<close>

definition Response_Text :: "Response \<Rightarrow> string" where
  "Response_Text r =
     (if length (Candidates r) = 0 then []
      else
        let parts = ResponseContent_Parts (Candidate_Content (Candidates r ! 0)) in
        if length parts = 0 then []
        else if length parts = 1 then ResponsePart_Text (parts ! 0)
        else foldl (\<lambda>b p. b @ ResponsePart_Text p) [] parts)"

section \<open>Serialization of a Request (\<^verbatim>\<open>encoding/json\<close> driven by the struct tags)\<close>

text \<open>
  \<^verbatim>\<open>json.Marshal\<close> and \<^verbatim>\<open>json.Unmarshal\<close> are modelled on JSON documents as values; the
  rendering of a document as bytes is left to the library (\<open>json_encode\<close> below). What the
  repository decides is in the struct tags: the keys, \<^verbatim>\<open>omitempty\<close> on
  \<^verbatim>\<open>maxOutputTokens\<close>, \<^verbatim>\<open>temperature\<close>, \<^verbatim>\<open>tools\<close> and \<^verbatim>\<open>googleSearch\<close>, and the pointer
  type of the temperature.
\<close>

datatype json =
  JNull
| JBool bool
| JNumber real
| JString string
| JArray "json list"
| JObject "(string \<times> json) list"

text \<open>
  A string is written coerced to valid UTF-8: the encoder decodes rune by rune and puts
  U+FFFD (\<^verbatim>\<open>EF BF BD\<close>) for every byte at which decoding gives \<open>(RuneError, 1)\<close>.
\<close>

function coerceUTF8 :: "string \<Rightarrow> string" where
  "coerceUTF8 s =
     (if s = [] then []
      else case DecodeRuneInString s of
             (r, w) \<Rightarrow>
               if r = RuneError \<and> w = 1 then [CHR 0xEF, CHR 0xBF, CHR 0xBD] @ coerceUTF8 (drop 1 s)
               else take w s @ coerceUTF8 (drop w s))"
  by pat_completeness auto
termination
  apply (relation "measure length")
    apply simp
   apply simp
  subgoal for s
    using DecodeRuneInString_size [of s] by (cases "DecodeRuneInString s") auto
  done

text \<open>\<^verbatim>\<open>utf8.ValidString\<close>: no position decodes to \<open>(RuneError, 1)\<close>.\<close>

function ValidString :: "string \<Rightarrow> bool" where
  "ValidString s =
     (if s = [] then True
      else case DecodeRuneInString s of
             (r, w) \<Rightarrow> \<not> (r = RuneError \<and> w = 1) \<and> ValidString (drop w s))"
  by pat_completeness auto
termination
  apply (relation "measure length")
   apply simp
  subgoal for s
    using DecodeRuneInString_size [of s] by (cases "DecodeRuneInString s") auto
  done

declare coerceUTF8.simps [simp del] ValidString.simps [simp del]

text \<open>A float is written only when finite: the encoder refuses NaN and the infinities.\<close>

fun Marshal_float64 :: "float64 \<Rightarrow> string + json" where
  "Marshal_float64 (Finite r) = Inr (JNumber r)"
| "Marshal_float64 PosInf = Inl ''json: unsupported value: +Inf''"
| "Marshal_float64 NegInf = Inl ''json: unsupported value: -Inf''"
| "Marshal_float64 NaN = Inl ''json: unsupported value: NaN''"

definition Marshal_Part :: "Part \<Rightarrow> json" where
  "Marshal_Part p = JObject [(''text'', JString (coerceUTF8 (Part_Text p)))]"

definition Marshal_Content :: "Content \<Rightarrow> json" where
  "Marshal_Content c = JObject [(''parts'', JArray (map Marshal_Part (Content_Parts c)))]"

definition Marshal_GenerationConfig :: "GenerationConfig \<Rightarrow> string + json" where
  "Marshal_GenerationConfig g =
     (let mt = (if MaxOutputTokens g = 0 then []
                else [(''maxOutputTokens'', JNumber (of_int (MaxOutputTokens g)))])
      in case Temperature g of
           None \<Rightarrow> Inr (JObject mt)
         | Some t \<Rightarrow>
             (case Marshal_float64 t of
                Inl e \<Rightarrow> Inl e
              | Inr j \<Rightarrow> Inr (JObject (mt @ [(''temperature'', j)]))))"

definition Marshal_Tool :: "Tool \<Rightarrow> json" where
  "Marshal_Tool tool =
     JObject (case Tool_GoogleSearch tool of
                None \<Rightarrow> []
              | Some _ \<Rightarrow> [(''googleSearch'', JObject [])])"

definition Marshal_Request :: "Request \<Rightarrow> string + json" where
  "Marshal_Request r =
     (case Marshal_GenerationConfig (Request_GenerationConfig r) of
        Inl e \<Rightarrow> Inl e
      | Inr g \<Rightarrow>
          Inr (JObject
                 ([(''contents'', JArray (map Marshal_Content (Request_Contents r))),
                   (''generationConfig'', g)]
                  @ (case Request_Tools r of
                       None \<Rightarrow> []
                     | Some ts \<Rightarrow>
                         if length ts = 0 then []
                         else [(''tools'', JArray (map Marshal_Tool ts))]))))"

text \<open>
  Decoding into a zero \<^verbatim>\<open>Request\<close>: a key that is absent, or whose value is \<^verbatim>\<open>null\<close>, leaves
  the zero value (for a slice, nil); an array gives a slice that is not nil, also when it is
  empty; of a repeated key the last occurrence stands; a value of the wrong kind is an
  error. (The decoder's fallback to a key differing in case is not modelled.)
\<close>

definition field :: "string \<Rightarrow> (string \<times> json) list \<Rightarrow> json option" where
  "field k kvs = map_of (rev kvs) k"

fun mapE :: "('a \<Rightarrow> string + 'b) \<Rightarrow> 'a list \<Rightarrow> string + 'b list" where
  "mapE f [] = Inr []"
| "mapE f (x # xs) =
     (case f x of
        Inl e \<Rightarrow> Inl e
      | Inr y \<Rightarrow> (case mapE f xs of Inl e \<Rightarrow> Inl e | Inr ys \<Rightarrow> Inr (y # ys)))"

definition Unmarshal_Part :: "json \<Rightarrow> string + Part" where
  "Unmarshal_Part j =
     (case j of
        JNull \<Rightarrow> Inr \<lparr>Part_Text = []\<rparr>
      | JObject kvs \<Rightarrow>
          (case field ''text'' kvs of
             None \<Rightarrow> Inr \<lparr>Part_Text = []\<rparr>
           | Some JNull \<Rightarrow> Inr \<lparr>Part_Text = []\<rparr>
           | Some (JString s) \<Rightarrow> Inr \<lparr>Part_Text = s\<rparr>
           | Some _ \<Rightarrow> Inl ''json: cannot unmarshal into Go struct field Part.text of type string'')
      | _ \<Rightarrow> Inl ''json: cannot unmarshal into Go value of type gemini.Part'')"

definition Unmarshal_Content :: "json \<Rightarrow> string + Content" where
  "Unmarshal_Content j =
     (case j of
        JNull \<Rightarrow> Inr \<lparr>Content_Parts = []\<rparr>
      | JObject kvs \<Rightarrow>
          (case field ''parts'' kvs of
             None \<Rightarrow> Inr \<lparr>Content_Parts = []\<rparr>
           | Some JNull \<Rightarrow> Inr \<lparr>Content_Parts = []\<rparr>
           | Some (JArray js) \<Rightarrow>
               (case mapE Unmarshal_Part js of
                  Inl e \<Rightarrow> Inl e
                | Inr ps \<Rightarrow> Inr \<lparr>Content_Parts = ps\<rparr>)
           | Some _ \<Rightarrow> Inl ''json: cannot unmarshal into Go struct field Content.parts of type []gemini.Part'')
      | _ \<Rightarrow> Inl ''json: cannot unmarshal into Go value of type gemini.Content'')"

definition Unmarshal_int :: "json option \<Rightarrow> string + int" where
  "Unmarshal_int v =
     (case v of
        None \<Rightarrow> Inr 0
      | Some JNull \<Rightarrow> Inr 0
      | Some (JNumber x) \<Rightarrow>
          if x = of_int \<lfloor>x\<rfloor> then Inr \<lfloor>x\<rfloor>
          else Inl ''json: cannot unmarshal number into Go value of type int''
      | Some _ \<Rightarrow> Inl ''json: cannot unmarshal into Go value of type int'')"

definition Unmarshal_float64_ptr :: "json option \<Rightarrow> string + float64 option" where
  "Unmarshal_float64_ptr v =
     (case v of
        None \<Rightarrow> Inr None
      | Some JNull \<Rightarrow> Inr None
      | Some (JNumber x) \<Rightarrow> Inr (Some (Finite x))
      | Some _ \<Rightarrow> Inl ''json: cannot unmarshal into Go value of type float64'')"

definition Unmarshal_GenerationConfig :: "json option \<Rightarrow> string + GenerationConfig" where
  "Unmarshal_GenerationConfig v =
     (case v of
        None \<Rightarrow> Inr \<lparr>MaxOutputTokens = 0, Temperature = None\<rparr>
      | Some JNull \<Rightarrow> Inr \<lparr>MaxOutputTokens = 0, Temperature = None\<rparr>
      | Some (JObject kvs) \<Rightarrow>
          (case Unmarshal_int (field ''maxOutputTokens'' kvs) of
             Inl e \<Rightarrow> Inl e
           | Inr n \<Rightarrow>
               (case Unmarshal_float64_ptr (field ''temperature'' kvs) of
                  Inl e \<Rightarrow> Inl e
                | Inr t \<Rightarrow> Inr \<lparr>MaxOutputTokens = n, Temperature = t\<rparr>))
      | Some _ \<Rightarrow> Inl ''json: cannot unmarshal into Go value of type gemini.GenerationConfig'')"

definition Unmarshal_Tool :: "json \<Rightarrow> string + Tool" where
  "Unmarshal_Tool j =
     (case j of
        JNull \<Rightarrow> Inr \<lparr>Tool_GoogleSearch = None\<rparr>
      | JObject kvs \<Rightarrow>
          (case field ''googleSearch'' kvs of
             None \<Rightarrow> Inr \<lparr>Tool_GoogleSearch = None\<rparr>
           | Some JNull \<Rightarrow> Inr \<lparr>Tool_GoogleSearch = None\<rparr>
           | Some (JObject _) \<Rightarrow> Inr \<lparr>Tool_GoogleSearch = Some ()\<rparr>
           | Some _ \<Rightarrow> Inl ''json: cannot unmarshal into Go value of type gemini.GoogleSearch'')
      | _ \<Rightarrow> Inl ''json: cannot unmarshal into Go value of type gemini.Tool'')"

definition Unmarshal_list :: "(json \<Rightarrow> string + 'a) \<Rightarrow> json option \<Rightarrow> string + 'a list" where
  "Unmarshal_list f v =
     (case v of
        None \<Rightarrow> Inr []
      | Some JNull \<Rightarrow> Inr []
      | Some (JArray js) \<Rightarrow> mapE f js
      | Some _ \<Rightarrow> Inl ''json: cannot unmarshal into Go value of slice type'')"

definition Unmarshal_slice ::
  "(json \<Rightarrow> string + 'a) \<Rightarrow> json option \<Rightarrow> string + 'a list option" where
  "Unmarshal_slice f v =
     (case v of
        None \<Rightarrow> Inr None
      | Some JNull \<Rightarrow> Inr None
      | Some (JArray js) \<Rightarrow> (case mapE f js of Inl e \<Rightarrow> Inl e | Inr xs \<Rightarrow> Inr (Some xs))
      | Some _ \<Rightarrow> Inl ''json: cannot unmarshal into Go value of slice type'')"

definition Unmarshal_Request :: "json \<Rightarrow> string + Request" where
  "Unmarshal_Request j =
     (case j of
        JNull \<Rightarrow>
          Inr \<lparr>Request_Contents = [],
               Request_GenerationConfig = \<lparr>MaxOutputTokens = 0, Temperature = None\<rparr>,
               Request_Tools = None\<rparr>
      | JObject kvs \<Rightarrow>
          (case Unmarshal_list Unmarshal_Content (field ''contents'' kvs) of
             Inl e \<Rightarrow> Inl e
           | Inr cs \<Rightarrow>
               (case Unmarshal_GenerationConfig (field ''generationConfig'' kvs) of
                  Inl e \<Rightarrow> Inl e
                | Inr g \<Rightarrow>
                    (case Unmarshal_slice Unmarshal_Tool (field ''tools'' kvs) of
                       Inl e \<Rightarrow> Inl e
                     | Inr ts \<Rightarrow>
                         Inr \<lparr>Request_Contents = cs, Request_GenerationConfig = g,
                              Request_Tools = ts\<rparr>)))
      | _ \<Rightarrow> Inl ''json: cannot unmarshal into Go value of type gemini.Request'')"

section \<open>The client (\<^verbatim>\<open>gemini/client.go\<close>)\<close>

subsection \<open>Library functions taken as parameters\<close>

text \<open>
  What the client takes from Go's standard library without fixing it here: the verbs
  \<^verbatim>\<open>%q\<close> and \<^verbatim>\<open>%f\<close> of \<^verbatim>\<open>fmt\<close>, the URL check of \<^verbatim>\<open>http.NewRequestWithContext\<close> (the error
  text when the URL does not parse), the rendering of a JSON document as bytes and the
  parsing of bytes as a JSON document, the decoding of a response body by
  \<^verbatim>\<open>json.Unmarshal\<close>, and \<^verbatim>\<open>json.MarshalIndent\<close> of a response.
\<close>

record golib =
  fmt_q :: "string \<Rightarrow> string"
  fmt_f :: "float64 \<Rightarrow> string"
  url_Parse_error :: "string \<Rightarrow> string option"
  json_encode :: "json \<Rightarrow> string"
  json_decode :: "string \<Rightarrow> string + json"
  json_Unmarshal :: "string \<Rightarrow> string + Response"
  json_MarshalIndent :: "Response \<Rightarrow> string + string"

text \<open>\<^verbatim>\<open>json.Marshal(reqBody)\<close> for a \<^verbatim>\<open>*Request\<close>.\<close>

definition json_Marshal :: "golib \<Rightarrow> Request \<Rightarrow> string + string" where
  "json_Marshal lib r =
     (case Marshal_Request r of
        Inl e \<Rightarrow> Inl e
      | Inr j \<Rightarrow> Inr (json_encode lib j))"

text \<open>\<^verbatim>\<open>json.Unmarshal(data, &req)\<close> for a zero \<^verbatim>\<open>Request\<close>.\<close>

definition json_Unmarshal_Request :: "golib \<Rightarrow> string \<Rightarrow> string + Request" where
  "json_Unmarshal_Request lib bytes =
     (case json_decode lib bytes of
        Inl e \<Rightarrow> Inl e
      | Inr j \<Rightarrow> Unmarshal_Request j)"

text \<open>The verb \<^verbatim>\<open>%d\<close>: an integer in decimal.\<close>

fun natToString :: "nat \<Rightarrow> string" where
  "natToString n =
     (if n < 10 then [''0123456789'' ! n]
      else natToString (n div 10) @ [''0123456789'' ! (n mod 10)])"

declare natToString.simps [simp del]

definition Itoa :: "int \<Rightarrow> string" where
  "Itoa i = (if i < 0 then CHR ''-'' # natToString (nat (- i)) else natToString (nat i))"

subsection \<open>Constants and errors\<close>

definition defaultBaseURL :: string where
  "defaultBaseURL = ''https://generativelanguage.googleapis.com/v1beta/models''"

definition defaultModel :: string where
  "defaultModel = ''gemini-3-pro-preview''"

definition maxResponseBytes :: nat where
  "maxResponseBytes = 10 * 1024 * 1024"

definition maxErrorBodyBytes :: nat where
  "maxErrorBodyBytes = 1024"

text \<open>
  One constructor for each place where the client makes an error; the arguments are the
  arguments of the format string there. \<open>Error\<close> is the text \<^verbatim>\<open>err.Error()\<close> gives.
\<close>

datatype error =
  EmptyAPIKey
| InsecureBaseURL string
| BadMaxTokens int
| BadTemperature float64
| MarshalRequest string
| CreateRequest string
| DoRequest string
| ReadResponse string
| ResponseTooLarge
| HTTPStatus int string
| UnmarshalResponse string

fun Error :: "golib \<Rightarrow> error \<Rightarrow> string" where
  "Error lib EmptyAPIKey = ''gemini: API key must not be empty''"
| "Error lib (InsecureBaseURL u) = ''gemini: base URL must use HTTPS, got '' @ fmt_q lib u"
| "Error lib (BadMaxTokens n) = ''gemini: maxTokens must be positive, got '' @ Itoa n"
| "Error lib (BadTemperature x) = ''gemini: temperature must be non-negative, got '' @ fmt_f lib x"
| "Error lib (MarshalRequest e) = ''gemini: marshal request: '' @ e"
| "Error lib (CreateRequest e) = ''gemini: create request: '' @ e"
| "Error lib (DoRequest e) = ''gemini: do request: '' @ e"
| "Error lib (ReadResponse e) = ''gemini: read response: '' @ e"
| "Error lib ResponseTooLarge =
     ''gemini: response exceeds '' @ Itoa (int maxResponseBytes) @ '' byte limit''"
| "Error lib (HTTPStatus code msg) = ''gemini: HTTP '' @ Itoa code @ '': '' @ msg"
| "Error lib (UnmarshalResponse e) = ''gemini: unmarshal response: '' @ e"

subsection \<open>HTTP requests, responses and the executor\<close>

text \<open>
  A response body is a stream: its \<^verbatim>\<open>Read\<close> calls deliver the bytes \<open>data\<close>, and then the
  stream ends, with end-of-file or with the read error \<open>failure\<close>. The error comes either in
  the \<^verbatim>\<open>Read\<close> call that delivers the last of the bytes (\<open>failsWithData\<close>) or in a call
  of its own after them.

  \<^verbatim>\<open>io.ReadAll(io.LimitReader(body, n))\<close> gives the bytes read and the error, if any. The
  limited reader asks the body for no more than the bytes still allowed and, once \<open>n\<close> bytes
  are read, answers end-of-file without asking the body again. So a body shorter than \<open>n\<close>
  is read whole, with its error; of a longer one \<open>n\<close> bytes are read and its end is never
  met; and of a body of exactly \<open>n\<close> bytes the error is met only when it comes with the last
  of them.
\<close>

record ReadCloser =
  data :: string
  failure :: "string option"
  failsWithData :: bool

definition ReadAll_LimitReader :: "ReadCloser \<Rightarrow> nat \<Rightarrow> string \<times> string option" where
  "ReadAll_LimitReader b n =
     (if length (data b) < n then (data b, failure b)
      else if length (data b) = n \<and> failsWithData b then (data b, failure b)
      else (take n (data b), None))"

record http_Request =
  Req_Method :: string
  Req_URL :: string
  Req_Header :: "(string \<times> string) list"
  Req_Body :: string
  Req_GetBody :: string

record http_Response =
  StatusCode :: int
  Resp_Body :: ReadCloser

text \<open>
  \<^verbatim>\<open>Doer\<close>: \<^verbatim>\<open>Do(*http.Request) (*http.Response, error)\<close>; \<open>Inl\<close> carries the text of the
  error. The context passed along with the request is not modelled (it is taken to be
  non-nil): a cancelled or expired call is an executor that answers \<open>Inl\<close>. Header keys are
  written as the source writes them.
\<close>

type_synonym Doer = "http_Request \<Rightarrow> string + http_Response"

text \<open>
  The effects of a call, in order: a request handed to the executor, the number of bytes
  that \<^verbatim>\<open>io.ReadAll\<close> has read from the response body, a body handed to \<^verbatim>\<open>json.Unmarshal\<close>.
\<close>

datatype event =
  Do http_Request
| ReadBody nat
| Unmarshal string

subsection \<open>Construction\<close>

record Client =
  apiKey :: string
  model :: string
  baseURL :: string
  doer :: Doer

datatype Option =
  WithModel string
| WithDoer Doer
| WithBaseURL string

fun applyOption :: "Option \<Rightarrow> Client \<Rightarrow> Client" where
  "applyOption (WithModel m) c = c\<lparr>model := m\<rparr>"
| "applyOption (WithDoer d) c = c\<lparr>doer := d\<rparr>"
| "applyOption (WithBaseURL u) c = c\<lparr>baseURL := u\<rparr>"

text \<open>
  \<^verbatim>\<open>New(apiKey, opts...)\<close>. The first argument stands for the default executor
  \<^verbatim>\<open>&http.Client{Timeout: defaultTimeout}\<close>, that is, for the network. The result carries the
  effects of the call next to the value returned; \<^verbatim>\<open>New\<close> has none. An option is one of
  the three the package makes (\<^verbatim>\<open>WithModel\<close>, \<^verbatim>\<open>WithDoer\<close>, \<^verbatim>\<open>WithBaseURL\<close>), applied in the
  order given.
\<close>

definition New :: "Doer \<Rightarrow> string \<Rightarrow> Option list \<Rightarrow> event list \<times> (error + Client)" where
  "New httpClient key opts =
     (if TrimSpace key = [] then ([], Inl EmptyAPIKey)
      else
        let c = fold applyOption opts
                  \<lparr>apiKey = key, model = defaultModel, baseURL = defaultBaseURL,
                   doer = httpClient\<rparr>
        in if \<not> HasPrefix (baseURL c) ''https://'' then ([], Inl (InsecureBaseURL (baseURL c)))
           else ([], Inr c))"

subsection \<open>Generate\<close>

record generateConfig =
  maxTokens :: int
  temperature :: float64
  googleSearch :: bool

datatype GenerateOption =
  WithMaxTokens int
| WithTemperature float64
| WithGoogleSearch

fun applyGenerateOption :: "GenerateOption \<Rightarrow> generateConfig \<Rightarrow> generateConfig" where
  "applyGenerateOption (WithMaxTokens n) g = g\<lparr>maxTokens := n\<rparr>"
| "applyGenerateOption (WithTemperature x) g = g\<lparr>temperature := x\<rparr>"
| "applyGenerateOption WithGoogleSearch g = g\<lparr>googleSearch := True\<rparr>"

text \<open>The configuration \<^verbatim>\<open>Generate\<close> resolves: the defaults, then each option in order.\<close>

definition resolveConfig :: "GenerateOption list \<Rightarrow> generateConfig" where
  "resolveConfig opts =
     fold applyGenerateOption opts
       \<lparr>maxTokens = 32000, temperature = Finite 1, googleSearch = False\<rparr>"

text \<open>The \<^verbatim>\<open>reqBody\<close> that \<^verbatim>\<open>Generate\<close> builds from the prompt and the resolved configuration.\<close>

definition buildRequest :: "string \<Rightarrow> generateConfig \<Rightarrow> Request" where
  "buildRequest prompt cfg =
     (let reqBody =
            \<lparr>Request_Contents = [\<lparr>Content_Parts = [\<lparr>Part_Text = prompt\<rparr>]\<rparr>],
             Request_GenerationConfig =
               \<lparr>MaxOutputTokens = maxTokens cfg, Temperature = Some (temperature cfg)\<rparr>,
             Request_Tools = None\<rparr>
      in if googleSearch cfg
         then reqBody\<lparr>Request_Tools := Some [\<lparr>Tool_GoogleSearch = Some ()\<rparr>]\<rparr>
         else reqBody)"

text \<open>The HTTP request \<^verbatim>\<open>doRequest\<close> makes for the serialized body \<open>jsonData\<close>.\<close>

definition requestURL :: "Client \<Rightarrow> string" where
  "requestURL c = baseURL c @ ''/'' @ model c @ '':generateContent''"

definition httpRequest :: "Client \<Rightarrow> string \<Rightarrow> http_Request" where
  "httpRequest c jsonData =
     \<lparr>Req_Method = ''POST'', Req_URL = requestURL c,
      Req_Header = [(''Content-Type'', ''application/json''), (''x-goog-api-key'', apiKey c)],
      Req_Body = jsonData, Req_GetBody = jsonData\<rparr>"

definition doRequest :: "golib \<Rightarrow> Client \<Rightarrow> Request \<Rightarrow> event list \<times> (error + Response)" where
  "doRequest lib c reqBody =
     (case json_Marshal lib reqBody of
        Inl err \<Rightarrow> ([], Inl (MarshalRequest err))
      | Inr jsonData \<Rightarrow>
          (case url_Parse_error lib (requestURL c) of
             Some err \<Rightarrow> ([], Inl (CreateRequest err))
           | None \<Rightarrow>
               let req = httpRequest c jsonData in
               (case doer c req of
                  Inl err \<Rightarrow> ([Do req], Inl (DoRequest err))
                | Inr resp \<Rightarrow>
                    (case ReadAll_LimitReader (Resp_Body resp) (maxResponseBytes + 1) of
                       (body, Some err) \<Rightarrow>
                         ([Do req, ReadBody (length body)], Inl (ReadResponse err))
                     | (body, None) \<Rightarrow>
                         if length body > maxResponseBytes
                         then ([Do req, ReadBody (length body)], Inl ResponseTooLarge)
                         else if StatusCode resp \<ge> 400
                         then
                           let msg = body;
                               msg = (if length msg > maxErrorBodyBytes
                                      then take maxErrorBodyBytes msg @ ''...(truncated)''
                                      else msg)
                           in ([Do req, ReadBody (length body)],
                               Inl (HTTPStatus (StatusCode resp) msg))
                         else
                           (case json_Unmarshal lib body of
                              Inl err \<Rightarrow>
                                ([Do req, ReadBody (length body), Unmarshal body],
                                 Inl (UnmarshalResponse err))
                            | Inr r \<Rightarrow>
                                ([Do req, ReadBody (length body), Unmarshal body], Inr r))))))"

definition Generate ::
  "golib \<Rightarrow> Client \<Rightarrow> string \<Rightarrow> GenerateOption list \<Rightarrow> event list \<times> (error + Response)" where
  "Generate lib c prompt opts =
     (let cfg = resolveConfig opts in
      if maxTokens cfg \<le> 0 then ([], Inl (BadMaxTokens (maxTokens cfg)))
      else if ltZero (temperature cfg) then ([], Inl (BadTemperature (temperature cfg)))
      else doRequest lib c (buildRequest prompt cfg))"

section \<open>The command line (\<^verbatim>\<open>cmd/gemini/main.go\<close>)\<close>

text \<open>
  \<^verbatim>\<open>strings.Join\<close>: nothing for no element, the element itself for one, and otherwise the
  first element followed by the separator and the next element, for each further element.
\<close>

definition Join :: "string list \<Rightarrow> string \<Rightarrow> string" where
  "Join elems sep =
     (case elems of
        [] \<Rightarrow> []
      | [x] \<Rightarrow> x
      | x # rest \<Rightarrow> foldl (\<lambda>b s. b @ sep @ s) x rest)"



datatype main_event =
  Panic
| Stderr string
| Stdout string
| CallNew string
| CallGenerate string "GenerateOption list"
| InClient event


section \<open>Specification-side notions\<close>

text \<open>A key is blank when it is empty or every rune of it is white space.\<close>

definition blank :: "string \<Rightarrow> bool" where
  "blank s = list_all IsSpace (runes s)"

text \<open>
  The base URL after all options are applied: the last override among the options, the
  default when there is none.
\<close>

definition resultingBaseURL :: "Option list \<Rightarrow> string" where
  "resultingBaseURL opts = last (defaultBaseURL # [u. WithBaseURL u \<leftarrow> opts])"

text \<open>\<^verbatim>\<open>strings.Contains\<close>: the second string occurs in the first.\<close>

fun Contains :: "string \<Rightarrow> string \<Rightarrow> bool" where
  "Contains [] sub = (sub = [])"
| "Contains (c # cs) sub = (HasPrefix (c # cs) sub \<or> Contains cs sub)"

declare Contains.simps [simp del]

text \<open>
  The excerpt of an error body that goes into an error text: the body itself up to
  \<open>maxErrorBodyBytes\<close>, else its first \<open>maxErrorBodyBytes\<close> bytes followed by the marker.
\<close>

definition excerpt :: "string \<Rightarrow> string" where
  "excerpt body =
     (if length body > maxErrorBodyBytes then take maxErrorBodyBytes body @ ''...(truncated)''
      else body)"

text \<open>
  A read error is met within the first \<open>n\<close> bytes of a body: the body has a read error,
  and it is shorter than \<open>n\<close>, or has exactly \<open>n\<close> bytes and the error comes with the last
  of them.
\<close>

definition errorWithin :: "ReadCloser \<Rightarrow> nat \<Rightarrow> bool" where
  "errorWithin b n =
     (failure b \<noteq> None \<and>
      (length (data b) < n \<or> (length (data b) = n \<and> failsWithData b)))"

text \<open>
  The configuration after the defaults and the options: the last value an option sets, the
  default when no option sets one.
\<close>

definition resolvedMaxTokens :: "GenerateOption list \<Rightarrow> int" where
  "resolvedMaxTokens opts = last (32000 # [n. WithMaxTokens n \<leftarrow> opts])"

definition resolvedTemperature :: "GenerateOption list \<Rightarrow> float64" where
  "resolvedTemperature opts = last (Finite 1 # [x. WithTemperature x \<leftarrow> opts])"

text \<open>A temperature that is neither an infinity nor NaN.\<close>

fun isFinite :: "float64 \<Rightarrow> bool" where
  "isFinite (Finite r) = True"
| "isFinite PosInf = False"
| "isFinite NegInf = False"
| "isFinite NaN = False"

text \<open>
  A call reaches the executor when the parameters pass validation, the request serializes
  to \<open>jsonData\<close> and the request URL parses.
\<close>

definition reachesExecutor ::
  "golib \<Rightarrow> Client \<Rightarrow> string \<Rightarrow> GenerateOption list \<Rightarrow> string \<Rightarrow> bool" where
  "reachesExecutor lib c prompt opts jsonData =
     (0 < resolvedMaxTokens opts \<and> \<not> ltZero (resolvedTemperature opts) \<and>
      json_Marshal lib (buildRequest prompt (resolveConfig opts)) = Inr jsonData \<and>
      url_Parse_error lib (requestURL c) = None)"

text \<open>
  The value \<^verbatim>\<open>doRequest\<close> returns, as a function of what it depends on: the result of
  serializing the request, the result of the URL check, and the answer of the executor to
  the request with a given body.
\<close>

definition resultOf ::
  "golib \<Rightarrow> string + string \<Rightarrow> string option \<Rightarrow> (string \<Rightarrow> string + http_Response)
     \<Rightarrow> error + Response" where
  "resultOf lib marshalled urlError answer =
     (case marshalled of
        Inl err \<Rightarrow> Inl (MarshalRequest err)
      | Inr jsonData \<Rightarrow>
          (case urlError of
             Some err \<Rightarrow> Inl (CreateRequest err)
           | None \<Rightarrow>
               (case answer jsonData of
                  Inl err \<Rightarrow> Inl (DoRequest err)
                | Inr resp \<Rightarrow>
                    (case ReadAll_LimitReader (Resp_Body resp) (maxResponseBytes + 1) of
                       (body, Some err) \<Rightarrow> Inl (ReadResponse err)
                     | (body, None) \<Rightarrow>
                         if length body > maxResponseBytes then Inl ResponseTooLarge
                         else if StatusCode resp \<ge> 400
                         then Inl (HTTPStatus (StatusCode resp) (excerpt body))
                         else (case json_Unmarshal lib body of
                                 Inl err \<Rightarrow> Inl (UnmarshalResponse err)
                               | Inr r \<Rightarrow> Inr r)))))"

text \<open>
  What a run of \<^verbatim>\<open>main\<close> shows: the prompts passed to \<^verbatim>\<open>Generate\<close>, whether \<^verbatim>\<open>gemini.New\<close>
  was called, and whether a request went to the executor.
\<close>

definition generateCalls :: "main_event list \<Rightarrow> string list" where
  "generateCalls evs = [p. CallGenerate p gopts \<leftarrow> evs]"



text \<open>
  A request whose part texts are all valid UTF-8, and one whose temperature is absent or
  finite.
\<close>

definition validTexts :: "Request \<Rightarrow> bool" where
  "validTexts r =
     list_all (\<lambda>c. list_all (\<lambda>p. ValidString (Part_Text p)) (Content_Parts c)) (Request_Contents r)"

definition finiteTemperature :: "Request \<Rightarrow> bool" where
  "finiteTemperature r =
     (case Temperature (Request_GenerationConfig r) of None \<Rightarrow> True | Some t \<Rightarrow> isFinite t)"

section \<open>A sample library and sample clients, for evaluating the model\<close>

text \<open>
  An instance of the library parameters on which the definitions can be run: a compact
  JSON rendering with a parser that reads back one sample document, the control-character
  check of \<^verbatim>\<open>net/url\<close> (its error text without the quoted URL in front), quoting without
  escapes, and a response decoder that accepts the body \<^verbatim>\<open>{}\<close> only. The theorems below hold
  for every instance.
\<close>

definition quoteJSON :: "string \<Rightarrow> string" where
  "quoteJSON s =
     CHR 0x22 # concat (map (\<lambda>c. if c = CHR 0x22 \<or> c = CHR 0x5C then [CHR 0x5C, c] else [c]) s)
     @ [CHR 0x22]"

fun sample_encode :: "json \<Rightarrow> string" where
  "sample_encode JNull = ''null''"
| "sample_encode (JBool b) = (if b then ''true'' else ''false'')"
| "sample_encode (JNumber x) =
     (if x = of_int \<lfloor>x\<rfloor> then Itoa \<lfloor>x\<rfloor> else Itoa \<lfloor>x * 1000\<rfloor> @ ''e-3'')"
| "sample_encode (JString s) = quoteJSON s"
| "sample_encode (JArray js) = ''['' @ Join (map sample_encode js) '','' @ '']''"
| "sample_encode (JObject kvs) =
     ''{'' @ Join (map (\<lambda>kv. quoteJSON (fst kv) @ '':'' @ sample_encode (snd kv)) kvs) '','' @ ''}''"

text \<open>A decoder that reads back the documents of a given list and refuses all other bytes.\<close>

definition decodeAmong :: "json list \<Rightarrow> string \<Rightarrow> string + json" where
  "decodeAmong docs bytes =
     (case find (\<lambda>j. sample_encode j = bytes) docs of
        Some j \<Rightarrow> Inr j
      | None \<Rightarrow> Inl ''invalid character'')"

definition sampleDocument :: json where
  "sampleDocument =
     JObject
       [(''contents'',
           JArray [JObject [(''parts'',
              JArray [JObject [(''text'', JString [CHR ''h'', CHR 0xC3, CHR 0xA9, CHR '' ''])]])]]),
        (''generationConfig'',
           JObject [(''maxOutputTokens'', JNumber 100), (''temperature'', JNumber 0)]),
        (''tools'', JArray [JObject [(''googleSearch'', JObject [])]])]"

definition sample_decode :: "string \<Rightarrow> string + json" where
  "sample_decode = decodeAmong [sampleDocument]"

definition zeroResponse :: Response where
  "zeroResponse =
     \<lparr>Candidates = [],
      Response_UsageMetadata =
        \<lparr>PromptTokenCount = 0, CandidatesTokenCount = 0, TotalTokenCount = 0\<rparr>\<rparr>"

definition samplelib :: golib where
  "samplelib =
     \<lparr>fmt_q = (\<lambda>s. CHR 0x22 # s @ [CHR 0x22]),
      fmt_f = (\<lambda>x. case x of Finite r \<Rightarrow> Itoa \<lfloor>r\<rfloor> @ ''.000000'' | PosInf \<Rightarrow> ''+Inf''
                     | NegInf \<Rightarrow> ''-Inf'' | NaN \<Rightarrow> ''NaN''),
      url_Parse_error =
        (\<lambda>u. if list_ex (\<lambda>c. (of_char c :: nat) < 0x20 \<or> (of_char c :: nat) = 0x7F) u
             then Some ''net/url: invalid control character in URL'' else None),
      json_encode = sample_encode,
      json_decode = sample_decode,
      json_Unmarshal = (\<lambda>b. if b = ''{}'' then Inr zeroResponse
                             else Inl ''invalid character''),
      json_MarshalIndent = (\<lambda>r. Inr ''{}'')\<rparr>"

definition sampleClient :: "string \<Rightarrow> Doer \<Rightarrow> Client" where
  "sampleClient key d =
     \<lparr>apiKey = key, model = defaultModel, baseURL = defaultBaseURL, doer = d\<rparr>"



definition sampleRequest :: "string \<Rightarrow> float64 \<Rightarrow> Request" where
  "sampleRequest text t =
     \<lparr>Request_Contents = [\<lparr>Content_Parts = [\<lparr>Part_Text = text\<rparr>]\<rparr>],
      Request_GenerationConfig = \<lparr>MaxOutputTokens = 100, Temperature = Some t\<rparr>,
      Request_Tools = Some [\<lparr>Tool_GoogleSearch = Some ()\<rparr>]\<rparr>"

section \<open>Properties of the string functions\<close>

text \<open>
  \<^verbatim>\<open>TrimSpace\<close> leaves nothing exactly when every rune of the string is white space: trimming
  on the left stops at the first rune that is not white space, and trimming on the right
  cannot remove that rune, since a string it empties starts with a white-space rune.
\<close>

lemma IsSpace_not_RuneError: "IsSpace r \<Longrightarrow> r \<noteq> RuneError"
  by (auto simp: IsSpace_def RuneError_def)

lemma DecodeRuneInString_append:
  assumes "fst (DecodeRuneInString u) \<noteq> RuneError"
  shows "DecodeRuneInString (u @ v) = DecodeRuneInString u"
proof -
  have "u \<noteq> []" using assms by (auto simp: DecodeRuneInString_def)
  then obtain a list where u: "u = a # list" by (cases u) auto
  let ?b = "of_char a :: nat"
  consider "?b < 0x80" | "0x80 \<le> ?b \<and> (?b < 0xC2 \<or> 0xF4 < ?b)" | "0xC2 \<le> ?b \<and> ?b < 0xE0"
    | "0xE0 \<le> ?b \<and> ?b < 0xF0" | "0xF0 \<le> ?b \<and> ?b \<le> 0xF4"
    by linarith
  then show ?thesis
  proof cases
    case 1 then show ?thesis by (simp add: u DecodeRuneInString_def)
  next
    case 2 then show ?thesis by (auto simp add: u DecodeRuneInString_def)
  next
    case 3
    with assms have "list \<noteq> []"
      by (auto simp: u DecodeRuneInString_def Let_def split: if_splits)
    then obtain b rest where l: "list = b # rest" by (cases list) auto
    with 3 show ?thesis
      by (simp add: u DecodeRuneInString_def Let_def)
  next
    case 4
    with assms have "2 \<le> length list"
      by (auto simp: u DecodeRuneInString_def Let_def split: if_splits)
    then obtain b c rest where l: "list = b # c # rest"
      by (cases list; cases "tl list") auto
    with 4 show ?thesis
      by (simp add: u DecodeRuneInString_def Let_def)
  next
    case 5
    with assms have "3 \<le> length list"
      by (auto simp: u DecodeRuneInString_def Let_def split: if_splits)
    then obtain b c d rest where l: "list = b # c # d # rest"
      by (cases list; cases "tl list"; cases "tl (tl list)") auto
    with 5 show ?thesis
      by (simp add: u DecodeRuneInString_def Let_def)
  qed
qed

lemma TrimLeftFunc_empty_iff: "TrimLeftFunc s f = [] \<longleftrightarrow> list_all f (runes s)"
proof (induction s f rule: TrimLeftFunc.induct)
  case (1 s f)
  show ?case
  proof (cases "s = []")
    case True
    then show ?thesis by (simp add: TrimLeftFunc.simps runes.simps)
  next
    case False
    obtain r w where d: "DecodeRuneInString s = (r, w)"
      by (cases "DecodeRuneInString s")
    show ?thesis
    proof (cases "f r")
      case True
      with False d "1.IH" [OF False d [symmetric] True] show ?thesis
        by (subst TrimLeftFunc.simps, subst runes.simps) simp
    next
      case nf: False
      with False d show ?thesis
        by (subst TrimLeftFunc.simps, subst runes.simps) simp
    qed
  qed
qed

lemma TrimLeftFunc_head:
  "TrimLeftFunc s f \<noteq> [] \<Longrightarrow> \<not> f (fst (DecodeRuneInString (TrimLeftFunc s f)))"
proof (induction s f rule: TrimLeftFunc.induct)
  case (1 s f)
  from "1.prems" have ne: "s \<noteq> []" by (auto simp: TrimLeftFunc.simps)
  obtain r w where d: "DecodeRuneInString s = (r, w)"
    by (cases "DecodeRuneInString s")
  show ?case
  proof (cases "f r")
    case True
    with ne d have eq: "TrimLeftFunc s f = TrimLeftFunc (drop w s) f"
      by (subst TrimLeftFunc.simps) simp
    with "1.prems" "1.IH" [OF ne d [symmetric] True] show ?thesis by simp
  next
    case False
    with ne d have "TrimLeftFunc s f = s" by (subst TrimLeftFunc.simps) simp
    with False d show ?thesis by simp
  qed
qed

lemma DecodeLastRuneInString_whole:
  assumes "DecodeLastRuneInString t = (r, length t)" and "r \<noteq> RuneError" and "t \<noteq> []"
  shows "fst (DecodeRuneInString t) = r"
proof (cases "(of_char (last t) :: nat) < 0x80")
  case True
  with assms have "length t = 1" and r: "r = of_char (last t)"
    by (auto simp: DecodeLastRuneInString_def)
  then obtain c where "t = [c]" by (cases t) auto
  with True r show ?thesis by (simp add: DecodeRuneInString_def)
next
  case False
  obtain r' w' where d: "DecodeRuneInString (drop (lastRuneStart t) t) = (r', w')"
    by (cases "DecodeRuneInString (drop (lastRuneStart t) t)")
  from assms False d have "lastRuneStart t + w' = length t \<and> r' = r \<and> w' = length t"
    by (auto simp: DecodeLastRuneInString_def split: if_splits)
  then have "lastRuneStart t = 0" and "r' = r" by auto
  with d show ?thesis by simp
qed

lemma TrimRightFunc_empty_head:
  "TrimRightFunc t f = [] \<Longrightarrow> t \<noteq> [] \<Longrightarrow> (\<And>r. f r \<Longrightarrow> r \<noteq> RuneError) \<Longrightarrow>
     f (fst (DecodeRuneInString t))"
proof (induction t f rule: TrimRightFunc.induct)
  case (1 s g)
  note ne = \<open>s \<noteq> []\<close>
  note f = "1.prems"(3)
  obtain r w where d: "DecodeLastRuneInString s = (r, w)"
    by (cases "DecodeLastRuneInString s")
  from DecodeLastRuneInString_size [OF ne] d have w: "1 \<le> w" "w \<le> length s" by auto
  have fr: "g r"
  proof (rule ccontr)
    assume "\<not> g r"
    with ne d have "TrimRightFunc s g = s" by (subst TrimRightFunc.simps) simp
    with "1.prems" show False by simp
  qed
  with ne d have eq: "TrimRightFunc s g = TrimRightFunc (take (length s - w) s) g"
    by (subst TrimRightFunc.simps) simp
  let ?t' = "take (length s - w) s"
  show ?case
  proof (cases "?t' = []")
    case True
    with w ne have "w = length s" by auto
    with d have "DecodeLastRuneInString s = (r, length s)" by simp
    from DecodeLastRuneInString_whole [OF this f [OF fr] ne] fr show ?thesis by simp
  next
    case False
    from "1.IH" [OF ne d [symmetric] fr _ False f] eq "1.prems"(1)
    have h: "g (fst (DecodeRuneInString ?t'))" by simp
    have "DecodeRuneInString (?t' @ drop (length s - w) s) = DecodeRuneInString ?t'"
      by (rule DecodeRuneInString_append) (rule f [OF h])
    with h show ?thesis by simp
  qed
qed

lemma TrimSpace_empty_iff: "TrimSpace s = [] \<longleftrightarrow> list_all IsSpace (runes s)"
proof
  assume e: "TrimSpace s = []"
  have "TrimLeftFunc s IsSpace = []"
  proof (rule ccontr)
    assume ne: "TrimLeftFunc s IsSpace \<noteq> []"
    from TrimRightFunc_empty_head [of _ IsSpace, OF _ ne IsSpace_not_RuneError] e
    have "IsSpace (fst (DecodeRuneInString (TrimLeftFunc s IsSpace)))"
      by (simp add: TrimSpace_def)
    with TrimLeftFunc_head [OF ne] show False by simp
  qed
  then show "list_all IsSpace (runes s)" by (simp add: TrimLeftFunc_empty_iff)
next
  assume "list_all IsSpace (runes s)"
  then have "TrimLeftFunc s IsSpace = []" by (simp add: TrimLeftFunc_empty_iff)
  then show "TrimSpace s = []" by (simp add: TrimSpace_def TrimRightFunc.simps)
qed

section \<open>Construction of a client\<close>

lemma baseURL_fold_applyOption:
  "baseURL (fold applyOption opts c) = last (baseURL c # [u. WithBaseURL u \<leftarrow> opts])"
proof (induction opts arbitrary: c)
  case Nil
  show ?case by simp
next
  case (Cons o1 opts)
  show ?case by (cases o1) (simp_all add: Cons.IH)
qed

lemma apiKey_fold_applyOption: "apiKey (fold applyOption opts c) = apiKey c"
proof (induction opts arbitrary: c)
  case Nil
  show ?case by simp
next
  case (Cons o1 opts)
  show ?case by (cases o1) (simp_all add: Cons.IH)
qed

text \<open>
  Claim C1. \<^verbatim>\<open>New\<close> fails exactly when the API key is blank (empty or white space only) or
  the base URL left by the options does not start with \<^verbatim>\<open>https://\<close>; the error is then one of
  the two configuration errors; no executor is called, whether construction fails or not;
  and a key that is not blank together with an https base URL gives a client holding that key
  and that URL.
\<close>

theorem New_fails_iff_blank_key_or_insecure_url:
  "fst (New hc key opts) = [] \<and>
   ((\<exists>e. snd (New hc key opts) = Inl e) \<longleftrightarrow>
      blank key \<or> \<not> HasPrefix (resultingBaseURL opts) ''https://'') \<and>
   (\<forall>e. snd (New hc key opts) = Inl e \<longrightarrow>
      e = EmptyAPIKey \<or> e = InsecureBaseURL (resultingBaseURL opts)) \<and>
   (\<not> blank key \<and> HasPrefix (resultingBaseURL opts) ''https://'' \<longrightarrow>
      (\<exists>c. snd (New hc key opts) = Inr c \<and> apiKey c = key \<and>
           baseURL c = resultingBaseURL opts))"
  by (auto simp: New_def Let_def blank_def resultingBaseURL_def TrimSpace_empty_iff
      baseURL_fold_applyOption apiKey_fold_applyOption)

theorem New_fails_iff_blank_key_or_insecure_url_witness:
  "blank [CHR 0x20, CHR 0x09, CHR 0xE2, CHR 0x80, CHR 0x83, CHR 0x0A] \<and>
   (\<exists>e. snd (New (\<lambda>_. Inl ''offline'')
              [CHR 0x20, CHR 0x09, CHR 0xE2, CHR 0x80, CHR 0x83, CHR 0x0A] []) = Inl e) \<and>
   \<not> HasPrefix (resultingBaseURL [WithBaseURL ''http://insecure.example.com'']) ''https://'' \<and>
   (\<exists>e. snd (New (\<lambda>_. Inl ''offline'') ''key''
              [WithBaseURL ''http://insecure.example.com'']) = Inl e) \<and>
   \<not> blank ''test-key'' \<and>
   HasPrefix (resultingBaseURL [WithBaseURL ''http://a'', WithBaseURL ''https://example.com/api''])
     ''https://'' \<and>
   (\<exists>c. snd (New (\<lambda>_. Inl ''offline'') ''test-key''
              [WithBaseURL ''http://a'', WithBaseURL ''https://example.com/api'']) = Inr c \<and>
        apiKey c = ''test-key'' \<and> baseURL c = ''https://example.com/api'')"
proof -
  have b1: "blank [CHR 0x20, CHR 0x09, CHR 0xE2, CHR 0x80, CHR 0x83, CHR 0x0A]"
    by (simp add: blank_def runes.simps DecodeRuneInString_def IsSpace_def Let_def)
  have b2: "\<not> blank ''test-key''"
    by (simp add: blank_def runes.simps DecodeRuneInString_def IsSpace_def)
  have u1: "\<not> HasPrefix (resultingBaseURL [WithBaseURL ''http://insecure.example.com''])
              ''https://''"
    by (simp add: resultingBaseURL_def HasPrefix_def)
  have u2: "resultingBaseURL [WithBaseURL ''http://a'', WithBaseURL ''https://example.com/api'']
              = ''https://example.com/api''"
    by (simp add: resultingBaseURL_def)
  have u3: "HasPrefix ''https://example.com/api'' ''https://''"
    by (simp add: HasPrefix_def)
  show ?thesis
    using b1 b2 u1 u2 u3
      New_fails_iff_blank_key_or_insecure_url
        [of "\<lambda>_. Inl ''offline''" "[CHR 0x20, CHR 0x09, CHR 0xE2, CHR 0x80, CHR 0x83, CHR 0x0A]" "[]"]
      New_fails_iff_blank_key_or_insecure_url
        [of "\<lambda>_. Inl ''offline''" "''key''" "[WithBaseURL ''http://insecure.example.com'']"]
      New_fails_iff_blank_key_or_insecure_url
        [of "\<lambda>_. Inl ''offline''" "''test-key''"
            "[WithBaseURL ''http://a'', WithBaseURL ''https://example.com/api'']"]
    by simp
qed

section \<open>The text accessor\<close>

lemma foldl_append_text:
  "foldl (\<lambda>b p. b @ ResponsePart_Text p) acc ps = acc @ concat (map ResponsePart_Text ps)"
  by (induction ps arbitrary: acc) simp_all

text \<open>
  Claim C6. \<^verbatim>\<open>Text\<close> is the empty string for a response without candidates and for a first
  candidate without parts; otherwise it is the texts of the parts of the first candidate,
  concatenated in order with nothing between them, whatever the later candidates are.
\<close>

theorem Response_Text_concat_first_candidate:
  "(Candidates r = [] \<longrightarrow> Response_Text r = []) \<and>
   (\<forall>c cs. Candidates r = c # cs \<longrightarrow>
      (ResponseContent_Parts (Candidate_Content c) = [] \<longrightarrow> Response_Text r = []) \<and>
      Response_Text r = concat (map ResponsePart_Text (ResponseContent_Parts (Candidate_Content c))))"
proof -
  have one: "length ps = 1 \<Longrightarrow> ResponsePart_Text (ps ! 0) = concat (map ResponsePart_Text ps)"
    for ps :: "ResponsePart list"
    by (cases ps) simp_all
  show ?thesis
    by (auto simp: Response_Text_def Let_def foldl_append_text one)
qed

theorem Response_Text_concat_first_candidate_witness:
  "Response_Text
     \<lparr>Candidates =
        [\<lparr>Candidate_Content =
             \<lparr>ResponseContent_Parts = [\<lparr>ResponsePart_Text = ''Hello ''\<rparr>, \<lparr>ResponsePart_Text = ''world!''\<rparr>],
              ResponseContent_Role = ''model''\<rparr>,
           FinishReason = ''STOP'', SafetyRatings = []\<rparr>,
         \<lparr>Candidate_Content =
             \<lparr>ResponseContent_Parts = [\<lparr>ResponsePart_Text = ''second''\<rparr>],
              ResponseContent_Role = ''model''\<rparr>,
           FinishReason = ''STOP'', SafetyRatings = []\<rparr>],
      Response_UsageMetadata =
        \<lparr>PromptTokenCount = 5, CandidatesTokenCount = 10, TotalTokenCount = 15\<rparr>\<rparr>
   = ''Hello world!'' \<and>
   Response_Text
     \<lparr>Candidates = [],
      Response_UsageMetadata =
        \<lparr>PromptTokenCount = 0, CandidatesTokenCount = 0, TotalTokenCount = 0\<rparr>\<rparr> = [] \<and>
   Response_Text
     \<lparr>Candidates =
        [\<lparr>Candidate_Content = \<lparr>ResponseContent_Parts = [], ResponseContent_Role = []\<rparr>,
           FinishReason = [], SafetyRatings = []\<rparr>],
      Response_UsageMetadata =
        \<lparr>PromptTokenCount = 0, CandidatesTokenCount = 0, TotalTokenCount = 0\<rparr>\<rparr> = []"
  using
    Response_Text_concat_first_candidate
      [of "\<lparr>Candidates =
        [\<lparr>Candidate_Content =
             \<lparr>ResponseContent_Parts = [\<lparr>ResponsePart_Text = ''Hello ''\<rparr>, \<lparr>ResponsePart_Text = ''world!''\<rparr>],
              ResponseContent_Role = ''model''\<rparr>,
           FinishReason = ''STOP'', SafetyRatings = []\<rparr>,
         \<lparr>Candidate_Content =
             \<lparr>ResponseContent_Parts = [\<lparr>ResponsePart_Text = ''second''\<rparr>],
              ResponseContent_Role = ''model''\<rparr>,
           FinishReason = ''STOP'', SafetyRatings = []\<rparr>],
      Response_UsageMetadata =
        \<lparr>PromptTokenCount = 5, CandidatesTokenCount = 10, TotalTokenCount = 15\<rparr>\<rparr>"]
    Response_Text_concat_first_candidate
      [of "\<lparr>Candidates = [],
      Response_UsageMetadata =
        \<lparr>PromptTokenCount = 0, CandidatesTokenCount = 0, TotalTokenCount = 0\<rparr>\<rparr>"]
    Response_Text_concat_first_candidate
      [of "\<lparr>Candidates =
        [\<lparr>Candidate_Content = \<lparr>ResponseContent_Parts = [], ResponseContent_Role = []\<rparr>,
           FinishReason = [], SafetyRatings = []\<rparr>],
      Response_UsageMetadata =
        \<lparr>PromptTokenCount = 0, CandidatesTokenCount = 0, TotalTokenCount = 0\<rparr>\<rparr>"]
  by simp
section \<open>Validation of the generation parameters\<close>

lemma maxTokens_fold:
  "maxTokens (fold applyGenerateOption opts g) = last (maxTokens g # [n. WithMaxTokens n \<leftarrow> opts])"
proof (induction opts arbitrary: g)
  case Nil
  show ?case by simp
next
  case (Cons o1 opts)
  show ?case by (cases o1) (simp_all add: Cons.IH)
qed

lemma temperature_fold:
  "temperature (fold applyGenerateOption opts g)
     = last (temperature g # [x. WithTemperature x \<leftarrow> opts])"
proof (induction opts arbitrary: g)
  case Nil
  show ?case by simp
next
  case (Cons o1 opts)
  show ?case by (cases o1) (simp_all add: Cons.IH)
qed

lemma googleSearch_fold:
  "googleSearch (fold applyGenerateOption opts g)
     = (googleSearch g \<or> WithGoogleSearch \<in> set opts)"
proof (induction opts arbitrary: g)
  case Nil
  show ?case by simp
next
  case (Cons o1 opts)
  show ?case by (cases o1) (auto simp: Cons.IH)
qed

lemma resolveConfig_maxTokens: "maxTokens (resolveConfig opts) = resolvedMaxTokens opts"
  by (simp add: resolveConfig_def resolvedMaxTokens_def maxTokens_fold)

lemma resolveConfig_temperature: "temperature (resolveConfig opts) = resolvedTemperature opts"
  by (simp add: resolveConfig_def resolvedTemperature_def temperature_fold)

lemma resolveConfig_googleSearch:
  "googleSearch (resolveConfig opts) = (WithGoogleSearch \<in> set opts)"
  by (simp add: resolveConfig_def googleSearch_fold)

text \<open>
  Claim C2. When the resolved max tokens are \<open>\<le> 0\<close> or the resolved temperature is \<open>< 0\<close>,
  \<^verbatim>\<open>Generate\<close> returns the validation error (for the max tokens first) and has no effect: the
  executor is not called. Client, prompt and library do not enter the result, so nothing is
  built or serialized.
\<close>

theorem Generate_invalid_parameters_no_executor:
  assumes "resolvedMaxTokens opts \<le> 0 \<or> ltZero (resolvedTemperature opts)"
  shows "fst (Generate lib c prompt opts) = [] \<and>
         snd (Generate lib c prompt opts) =
           Inl (if resolvedMaxTokens opts \<le> 0 then BadMaxTokens (resolvedMaxTokens opts)
                else BadTemperature (resolvedTemperature opts)) \<and>
         Generate lib' c' prompt' opts = Generate lib c prompt opts"
  using assms
  by (auto simp: Generate_def Let_def resolveConfig_maxTokens resolveConfig_temperature)

theorem Generate_invalid_parameters_no_executor_witness:
  "Generate samplelib (sampleClient ''key'' (\<lambda>_. Inl ''unreachable'')) ''test'' [WithMaxTokens 0]
     = ([], Inl (BadMaxTokens 0)) \<and>
   Generate samplelib (sampleClient ''key'' (\<lambda>_. Inl ''unreachable'')) ''test''
       [WithMaxTokens (- 1), WithTemperature (Finite (- 1))]
     = ([], Inl (BadMaxTokens (- 1))) \<and>
   Generate samplelib (sampleClient ''key'' (\<lambda>_. Inl ''unreachable'')) ''test''
       [WithTemperature (Finite (- 0.1))]
     = ([], Inl (BadTemperature (Finite (- 0.1))))"
proof -
  have a: "resolvedMaxTokens [WithMaxTokens 0] \<le> 0 \<or> ltZero (resolvedTemperature [WithMaxTokens 0])"
    by (simp add: resolvedMaxTokens_def)
  have b: "resolvedMaxTokens [WithMaxTokens (- 1), WithTemperature (Finite (- 1))] \<le> 0
           \<or> ltZero (resolvedTemperature [WithMaxTokens (- 1), WithTemperature (Finite (- 1))])"
    by (simp add: resolvedMaxTokens_def)
  have c: "resolvedMaxTokens [WithTemperature (Finite (- 0.1))] \<le> 0
           \<or> ltZero (resolvedTemperature [WithTemperature (Finite (- 0.1))])"
    by (simp add: resolvedTemperature_def)
  show ?thesis
    using Generate_invalid_parameters_no_executor [OF a, of samplelib "sampleClient ''key'' (\<lambda>_. Inl ''unreachable'')" "''test''"]
      Generate_invalid_parameters_no_executor [OF b, of samplelib "sampleClient ''key'' (\<lambda>_. Inl ''unreachable'')" "''test''"]
      Generate_invalid_parameters_no_executor [OF c, of samplelib "sampleClient ''key'' (\<lambda>_. Inl ''unreachable'')" "''test''"]
    by (simp add: prod_eq_iff resolvedMaxTokens_def resolvedTemperature_def)
qed

section \<open>The request that Generate builds\<close>

lemma Generate_valid:
  "0 < resolvedMaxTokens opts \<Longrightarrow> \<not> ltZero (resolvedTemperature opts) \<Longrightarrow>
     Generate lib c prompt opts = doRequest lib c (buildRequest prompt (resolveConfig opts))"
  by (simp add: Generate_def Let_def resolveConfig_maxTokens resolveConfig_temperature)

lemma Generate_reaches:
  assumes "reachesExecutor lib c prompt opts jsonData"
  shows "Generate lib c prompt opts =
     (let req = httpRequest c jsonData in
      case doer c req of
        Inl err \<Rightarrow> ([Do req], Inl (DoRequest err))
      | Inr resp \<Rightarrow>
          (case ReadAll_LimitReader (Resp_Body resp) (maxResponseBytes + 1) of
             (body, Some err) \<Rightarrow> ([Do req, ReadBody (length body)], Inl (ReadResponse err))
           | (body, None) \<Rightarrow>
               if length body > maxResponseBytes
               then ([Do req, ReadBody (length body)], Inl ResponseTooLarge)
               else if StatusCode resp \<ge> 400
               then ([Do req, ReadBody (length body)],
                     Inl (HTTPStatus (StatusCode resp)
                            (if length body > maxErrorBodyBytes
                             then take maxErrorBodyBytes body @ ''...(truncated)'' else body)))
               else
                 (case json_Unmarshal lib body of
                    Inl err \<Rightarrow>
                      ([Do req, ReadBody (length body), Unmarshal body], Inl (UnmarshalResponse err))
                  | Inr r \<Rightarrow> ([Do req, ReadBody (length body), Unmarshal body], Inr r))))"
  using assms
  by (auto simp: reachesExecutor_def Generate_valid doRequest_def Let_def
      split: sum.split prod.split option.split)

text \<open>
  Claim C3. For every prompt and all options, the request that \<^verbatim>\<open>Generate\<close> builds has one
  content with one part, whose text is the prompt unchanged; when the parameters pass
  validation, this request is the one \<^verbatim>\<open>Generate\<close> passes on to \<^verbatim>\<open>doRequest\<close>.
\<close>

theorem Generate_builds_single_part_request:
  "Request_Contents (buildRequest prompt (resolveConfig opts))
     = [\<lparr>Content_Parts = [\<lparr>Part_Text = prompt\<rparr>]\<rparr>] \<and>
   (0 < resolvedMaxTokens opts \<and> \<not> ltZero (resolvedTemperature opts) \<longrightarrow>
      Generate lib c prompt opts = doRequest lib c (buildRequest prompt (resolveConfig opts)))"
  by (simp add: Generate_valid) (simp add: buildRequest_def Let_def)

lemma sample_Marshal_test:
  "json_Marshal samplelib (buildRequest ''test'' (resolveConfig []))
     = Inr (sample_encode (JObject
         [(''contents'', JArray [JObject [(''parts'', JArray [JObject [(''text'', JString ''test'')]])]]),
          (''generationConfig'',
             JObject [(''maxOutputTokens'', JNumber 32000), (''temperature'', JNumber 1)])]))"
  by (simp add: json_Marshal_def samplelib_def buildRequest_def resolveConfig_def Marshal_Request_def
      Marshal_GenerationConfig_def Marshal_Content_def Marshal_Part_def coerceUTF8.simps
      DecodeRuneInString_def RuneError_def)

lemma sample_reaches_test:
  "reachesExecutor samplelib (sampleClient ''key'' d) ''test'' []
     (sample_encode (JObject
         [(''contents'', JArray [JObject [(''parts'', JArray [JObject [(''text'', JString ''test'')]])]]),
          (''generationConfig'',
             JObject [(''maxOutputTokens'', JNumber 32000), (''temperature'', JNumber 1)])]))"
  unfolding reachesExecutor_def sample_Marshal_test
  by (simp add: resolvedMaxTokens_def resolvedTemperature_def samplelib_def requestURL_def
      sampleClient_def defaultBaseURL_def defaultModel_def)

theorem Generate_builds_single_part_request_witness:
  "Request_Contents (buildRequest ''  hello\<newline>'' (resolveConfig []))
     = [\<lparr>Content_Parts = [\<lparr>Part_Text = ''  hello\<newline>''\<rparr>]\<rparr>] \<and>
   0 < resolvedMaxTokens [] \<and> \<not> ltZero (resolvedTemperature []) \<and>
   Generate samplelib (sampleClient ''key'' (\<lambda>_. Inl ''offline'')) ''  hello\<newline>'' []
     = doRequest samplelib (sampleClient ''key'' (\<lambda>_. Inl ''offline''))
         (buildRequest ''  hello\<newline>'' (resolveConfig []))"
  using Generate_builds_single_part_request
      [of "''  hello\<newline>''" "[]" samplelib "sampleClient ''key'' (\<lambda>_. Inl ''offline'')"]
  by (simp add: resolvedMaxTokens_def resolvedTemperature_def)

section \<open>The size ceiling\<close>

lemma ReadAll_LimitReader_no_error:
  "snd (ReadAll_LimitReader b n) = None \<longleftrightarrow> \<not> errorWithin b n"
  by (auto simp: ReadAll_LimitReader_def errorWithin_def)

text \<open>
  Claim C5, as amended. When the executor answers with a body longer than
  \<open>maxResponseBytes\<close> (10 MiB) and no read error is met within its first
  \<open>maxResponseBytes + 1\<close> bytes, \<^verbatim>\<open>Generate\<close> fails with the size-limit error after reading
  \<open>maxResponseBytes + 1\<close> bytes and no more; the body is not handed to \<^verbatim>\<open>json.Unmarshal\<close>, and
  the outcome is the same for every status code. No read error is met, in particular, when
  the body has none, and when the body is longer than \<open>maxResponseBytes + 1\<close>.
\<close>

theorem Generate_oversized_body:
  assumes "reachesExecutor lib c prompt opts jsonData"
    and "doer c (httpRequest c jsonData) = Inr resp"
    and "length (data (Resp_Body resp)) > maxResponseBytes"
    and "\<not> errorWithin (Resp_Body resp) (maxResponseBytes + 1)"
  shows "Generate lib c prompt opts =
           ([Do (httpRequest c jsonData), ReadBody (maxResponseBytes + 1)], Inl ResponseTooLarge) \<and>
         (failure (Resp_Body resp) = None \<longrightarrow>
            \<not> errorWithin (Resp_Body resp) (maxResponseBytes + 1)) \<and>
         (length (data (Resp_Body resp)) > maxResponseBytes + 1 \<longrightarrow>
            \<not> errorWithin (Resp_Body resp) (maxResponseBytes + 1))"
proof -
  from assms(3,4)
  have "ReadAll_LimitReader (Resp_Body resp) (maxResponseBytes + 1)
          = (take (maxResponseBytes + 1) (data (Resp_Body resp)), None)"
    by (auto simp: ReadAll_LimitReader_def errorWithin_def)
  with assms(2,3) show ?thesis
    by (simp add: Generate_reaches [OF assms(1)] Let_def errorWithin_def)
qed

theorem Generate_oversized_body_witness:
  "Generate samplelib
     (sampleClient ''key''
        (\<lambda>_. Inr \<lparr>StatusCode = 200,
                    Resp_Body = \<lparr>data = replicate (maxResponseBytes + 100) (CHR ''x''),
                                 failure = None, failsWithData = False\<rparr>\<rparr>))
     ''test'' []
   = ([Do (httpRequest
             (sampleClient ''key''
                (\<lambda>_. Inr \<lparr>StatusCode = 200,
                            Resp_Body = \<lparr>data = replicate (maxResponseBytes + 100) (CHR ''x''),
                                         failure = None, failsWithData = False\<rparr>\<rparr>))
             (sample_encode (JObject
                [(''contents'',
                    JArray [JObject [(''parts'', JArray [JObject [(''text'', JString ''test'')]])]]),
                 (''generationConfig'',
                    JObject [(''maxOutputTokens'', JNumber 32000), (''temperature'', JNumber 1)])]))),
       ReadBody 10485761],
      Inl ResponseTooLarge) \<and>
   snd (Generate samplelib
          (sampleClient ''key''
             (\<lambda>_. Inr \<lparr>StatusCode = 500,
                         Resp_Body = \<lparr>data = replicate (maxResponseBytes + 2) (CHR ''x''),
                                      failure = Some ''unexpected EOF'',
                                      failsWithData = True\<rparr>\<rparr>))
          ''test'' [])
     = Inl ResponseTooLarge"
proof -
  let ?r1 = "\<lparr>StatusCode = 200,
              Resp_Body = \<lparr>data = replicate (maxResponseBytes + 100) (CHR ''x''),
                           failure = None, failsWithData = False\<rparr>\<rparr>"
  let ?r2 = "\<lparr>StatusCode = 500,
              Resp_Body = \<lparr>data = replicate (maxResponseBytes + 2) (CHR ''x''),
                           failure = Some ''unexpected EOF'', failsWithData = True\<rparr>\<rparr>"
  have a1: "doer (sampleClient ''key'' (\<lambda>_. Inr ?r1)) (httpRequest (sampleClient ''key'' (\<lambda>_. Inr ?r1)) j)
              = Inr ?r1" for j
    by (simp add: sampleClient_def)
  have a2: "doer (sampleClient ''key'' (\<lambda>_. Inr ?r2)) (httpRequest (sampleClient ''key'' (\<lambda>_. Inr ?r2)) j)
              = Inr ?r2" for j
    by (simp add: sampleClient_def)
  have l1: "length (data (Resp_Body ?r1)) > maxResponseBytes" by simp
  have l2: "length (data (Resp_Body ?r2)) > maxResponseBytes" by simp
  have e1: "\<not> errorWithin (Resp_Body ?r1) (maxResponseBytes + 1)"
    by (simp add: errorWithin_def)
  have e2: "\<not> errorWithin (Resp_Body ?r2) (maxResponseBytes + 1)"
    by (simp add: errorWithin_def)
  from Generate_oversized_body [OF sample_reaches_test a1 l1 e1, THEN conjunct1]
       Generate_oversized_body [OF sample_reaches_test a2 l2 e2, THEN conjunct1]
  show ?thesis
    by (simp add: maxResponseBytes_def)
qed

text \<open>
  The claim as first stated, for every body longer than the ceiling, fails for a body of
  exactly \<open>maxResponseBytes + 1\<close> bytes whose read error comes with the last of them:
  \<^verbatim>\<open>io.ReadAll\<close> returns the error, and the read error is tested before the size.
\<close>

theorem Generate_oversized_body_counterexample:
  "maxResponseBytes
     < length (data \<lparr>data = replicate 10485761 (CHR ''x''), failure = Some ''unexpected EOF'',
                      failsWithData = True\<rparr>) \<and>
   Generate samplelib
     (sampleClient ''key''
        (\<lambda>_. Inr \<lparr>StatusCode = 200,
                    Resp_Body = \<lparr>data = replicate 10485761 (CHR ''x''),
                                 failure = Some ''unexpected EOF'', failsWithData = True\<rparr>\<rparr>))
     ''test'' []
   = ([Do (httpRequest
             (sampleClient ''key''
                (\<lambda>_. Inr \<lparr>StatusCode = 200,
                            Resp_Body = \<lparr>data = replicate 10485761 (CHR ''x''),
                                         failure = Some ''unexpected EOF'',
                                         failsWithData = True\<rparr>\<rparr>))
             (sample_encode (JObject
                [(''contents'',
                    JArray [JObject [(''parts'', JArray [JObject [(''text'', JString ''test'')]])]]),
                 (''generationConfig'',
                    JObject [(''maxOutputTokens'', JNumber 32000), (''temperature'', JNumber 1)])]))),
       ReadBody 10485761],
      Inl (ReadResponse ''unexpected EOF''))"
  unfolding Generate_reaches [OF sample_reaches_test]
  by (simp add: Let_def ReadAll_LimitReader_def sampleClient_def maxResponseBytes_def)
section \<open>HTTP status errors\<close>

lemma HasPrefix_iff: "HasPrefix s sub \<longleftrightarrow> (\<exists>q. s = sub @ q)"
proof
  assume "HasPrefix s sub"
  then have "s = sub @ drop (length sub) s"
    by (metis HasPrefix_def append_take_drop_id)
  then show "\<exists>q. s = sub @ q" ..
next
  assume "\<exists>q. s = sub @ q"
  then show "HasPrefix s sub" by (auto simp: HasPrefix_def)
qed

lemma Contains_iff: "Contains s sub \<longleftrightarrow> (\<exists>p q. s = p @ sub @ q)"
proof (induction s)
  case Nil
  show ?case by (auto simp: Contains.simps)
next
  case (Cons c cs)
  show ?case
  proof
    assume "Contains (c # cs) sub"
    then consider "HasPrefix (c # cs) sub" | "Contains cs sub" by (auto simp: Contains.simps)
    then show "\<exists>p q. c # cs = p @ sub @ q"
    proof cases
      case 1
      then obtain q where "c # cs = sub @ q" by (auto simp: HasPrefix_iff)
      then have "c # cs = [] @ sub @ q" by simp
      then show ?thesis by blast
    next
      case 2
      with Cons.IH obtain p q where "cs = p @ sub @ q" by auto
      then have "c # cs = (c # p) @ sub @ q" by simp
      then show ?thesis by blast
    qed
  next
    assume "\<exists>p q. c # cs = p @ sub @ q"
    then obtain p q where e: "c # cs = p @ sub @ q" by auto
    show "Contains (c # cs) sub"
    proof (cases p)
      case Nil
      with e have "HasPrefix (c # cs) sub" by (auto simp: HasPrefix_iff)
      then show ?thesis by (simp add: Contains.simps)
    next
      case (Cons a p')
      with e have "cs = p' @ sub @ q" by simp
      with Cons.IH have "Contains cs sub" by blast
      then show ?thesis by (simp add: Contains.simps)
    qed
  qed
qed

lemma Contains_length: "Contains s sub \<Longrightarrow> length sub \<le> length s"
  by (auto simp: Contains_iff)

lemma Itoa_500: "Itoa 500 = ''500''"
  by (simp add: Itoa_def natToString.simps)

lemma Itoa_max: "Itoa (int maxResponseBytes) = ''10485760''"
  by (simp add: Itoa_def natToString.simps maxResponseBytes_def)

lemma Error_HTTPStatus_contains:
  "Contains (Error lib (HTTPStatus code msg)) (Itoa code) \<and>
   Contains (Error lib (HTTPStatus code msg)) msg"
proof
  have "Error lib (HTTPStatus code msg) = ''gemini: HTTP '' @ Itoa code @ ('': '' @ msg)"
    by simp
  then show "Contains (Error lib (HTTPStatus code msg)) (Itoa code)"
    unfolding Contains_iff by blast
  have "Error lib (HTTPStatus code msg) = (''gemini: HTTP '' @ Itoa code @ '': '') @ msg @ []"
    by simp
  then show "Contains (Error lib (HTTPStatus code msg)) msg"
    unfolding Contains_iff by blast
qed

lemma excerpt_marker:
  "length body > maxErrorBodyBytes \<Longrightarrow>
     Contains (Error lib (HTTPStatus code (excerpt body))) ''...(truncated)''"
proof -
  assume "length body > maxErrorBodyBytes"
  then have "Error lib (HTTPStatus code (excerpt body))
      = (''gemini: HTTP '' @ Itoa code @ '': '' @ take maxErrorBodyBytes body) @ ''...(truncated)'' @ []"
    by (simp add: excerpt_def)
  then show ?thesis unfolding Contains_iff by blast
qed

text \<open>
  Claim C4, as amended. Let the executor answer with a response. An HTTP-status error is
  returned only for a status \<open>\<ge> 400\<close>, and it carries that status and the excerpt of the body.
  When the status is \<open>\<ge> 400\<close> and the body is read without error and is within the size
  ceiling, \<^verbatim>\<open>Generate\<close> fails with that error; its text contains the status code and the
  excerpt, which is the body up to 1024 bytes and otherwise its first 1024 bytes followed by
  the truncation marker. For status 500 and a body of 2000 bytes the text contains the marker,
  is shorter than 2000 bytes and does not contain the body.
\<close>

theorem Generate_http_status_error:
  assumes "reachesExecutor lib c prompt opts jsonData"
    and "doer c (httpRequest c jsonData) = Inr resp"
  shows
    "(\<forall>code msg. snd (Generate lib c prompt opts) = Inl (HTTPStatus code msg) \<longrightarrow>
        code = StatusCode resp \<and> 400 \<le> code \<and> msg = excerpt (data (Resp_Body resp))) \<and>
     (400 \<le> StatusCode resp \<and> failure (Resp_Body resp) = None \<and>
      length (data (Resp_Body resp)) \<le> maxResponseBytes \<longrightarrow>
        snd (Generate lib c prompt opts)
          = Inl (HTTPStatus (StatusCode resp) (excerpt (data (Resp_Body resp)))) \<and>
        Contains (Error lib (HTTPStatus (StatusCode resp) (excerpt (data (Resp_Body resp)))))
          (Itoa (StatusCode resp)) \<and>
        Contains (Error lib (HTTPStatus (StatusCode resp) (excerpt (data (Resp_Body resp)))))
          (excerpt (data (Resp_Body resp))) \<and>
        (length (data (Resp_Body resp)) \<le> 1024 \<longrightarrow>
           excerpt (data (Resp_Body resp)) = data (Resp_Body resp)) \<and>
        (1024 < length (data (Resp_Body resp)) \<longrightarrow>
           excerpt (data (Resp_Body resp))
             = take 1024 (data (Resp_Body resp)) @ ''...(truncated)'') \<and>
        (StatusCode resp = 500 \<and> length (data (Resp_Body resp)) = 2000 \<longrightarrow>
           Contains (Error lib (HTTPStatus 500 (excerpt (data (Resp_Body resp))))) ''...(truncated)'' \<and>
           length (Error lib (HTTPStatus 500 (excerpt (data (Resp_Body resp))))) < 2000 \<and>
           \<not> Contains (Error lib (HTTPStatus 500 (excerpt (data (Resp_Body resp)))))
                (data (Resp_Body resp))))"
proof (intro conjI allI impI)
  fix code msg
  assume "snd (Generate lib c prompt opts) = Inl (HTTPStatus code msg)"
  then have "code = StatusCode resp \<and> 400 \<le> code \<and> msg = excerpt (data (Resp_Body resp))"
    using assms(2)
    by (auto simp: Generate_reaches [OF assms(1)] Let_def ReadAll_LimitReader_def excerpt_def
        maxResponseBytes_def maxErrorBodyBytes_def
        split: sum.splits if_splits option.splits prod.splits)
  then show "code = StatusCode resp" "400 \<le> code" "msg = excerpt (data (Resp_Body resp))"
    by simp_all
next
  assume h: "400 \<le> StatusCode resp \<and> failure (Resp_Body resp) = None \<and>
      length (data (Resp_Body resp)) \<le> maxResponseBytes"
  then show "snd (Generate lib c prompt opts)
          = Inl (HTTPStatus (StatusCode resp) (excerpt (data (Resp_Body resp))))"
    using assms(2)
    by (simp add: Generate_reaches [OF assms(1)] Let_def ReadAll_LimitReader_def excerpt_def)
next
  show "Contains (Error lib (HTTPStatus (StatusCode resp) (excerpt (data (Resp_Body resp)))))
          (Itoa (StatusCode resp))"
    using Error_HTTPStatus_contains by blast
next
  show "Contains (Error lib (HTTPStatus (StatusCode resp) (excerpt (data (Resp_Body resp)))))
          (excerpt (data (Resp_Body resp)))"
    using Error_HTTPStatus_contains by blast
next
  assume "length (data (Resp_Body resp)) \<le> 1024"
  then show "excerpt (data (Resp_Body resp)) = data (Resp_Body resp)"
    by (simp add: excerpt_def maxErrorBodyBytes_def)
next
  assume "1024 < length (data (Resp_Body resp))"
  then show "excerpt (data (Resp_Body resp)) = take 1024 (data (Resp_Body resp)) @ ''...(truncated)''"
    by (simp add: excerpt_def maxErrorBodyBytes_def)
next
  assume h: "StatusCode resp = 500 \<and> length (data (Resp_Body resp)) = 2000"
  then show "Contains (Error lib (HTTPStatus 500 (excerpt (data (Resp_Body resp))))) ''...(truncated)''"
    by (intro excerpt_marker) (simp add: maxErrorBodyBytes_def)
  from h have len: "length (Error lib (HTTPStatus 500 (excerpt (data (Resp_Body resp))))) = 1056"
    by (simp add: excerpt_def maxErrorBodyBytes_def Itoa_500)
  then show "length (Error lib (HTTPStatus 500 (excerpt (data (Resp_Body resp))))) < 2000"
    by simp
  show "\<not> Contains (Error lib (HTTPStatus 500 (excerpt (data (Resp_Body resp)))))
                (data (Resp_Body resp))"
  proof
    assume "Contains (Error lib (HTTPStatus 500 (excerpt (data (Resp_Body resp)))))
                (data (Resp_Body resp))"
    from Contains_length [OF this] len h show False by simp
  qed
qed

theorem Generate_http_status_error_witness:
  "snd (Generate samplelib
          (sampleClient ''key''
             (\<lambda>_. Inr \<lparr>StatusCode = 500,
                         Resp_Body = \<lparr>data = replicate 2000 (CHR ''E''), failure = None, failsWithData = False\<rparr>\<rparr>))
          ''test'' [])
     = Inl (HTTPStatus 500 (replicate 1024 (CHR ''E'') @ ''...(truncated)'')) \<and>
   Contains (Error samplelib (HTTPStatus 500 (replicate 1024 (CHR ''E'') @ ''...(truncated)'')))
     (Itoa 500) \<and>
   Contains (Error samplelib (HTTPStatus 500 (replicate 1024 (CHR ''E'') @ ''...(truncated)'')))
     ''...(truncated)'' \<and>
   length (Error samplelib (HTTPStatus 500 (replicate 1024 (CHR ''E'') @ ''...(truncated)'')))
     < 2000 \<and>
   \<not> Contains (Error samplelib (HTTPStatus 500 (replicate 1024 (CHR ''E'') @ ''...(truncated)'')))
         (replicate 2000 (CHR ''E''))"
proof -
  let ?resp = "\<lparr>StatusCode = 500,
                Resp_Body = \<lparr>data = replicate 2000 (CHR ''E''), failure = None, failsWithData = False\<rparr>\<rparr>"
  let ?c = "sampleClient ''key'' (\<lambda>_. Inr ?resp)"
  have ans: "doer ?c (httpRequest ?c jsonData) = Inr ?resp" for jsonData
    by (simp add: sampleClient_def)
  have ex: "excerpt (data (Resp_Body ?resp)) = replicate 1024 (CHR ''E'') @ ''...(truncated)''"
    by (simp add: excerpt_def maxErrorBodyBytes_def)
  have pre: "400 \<le> StatusCode ?resp \<and> failure (Resp_Body ?resp) = None \<and>
      length (data (Resp_Body ?resp)) \<le> maxResponseBytes"
    by (simp add: maxResponseBytes_def)
  have in2000: "StatusCode ?resp = 500 \<and> length (data (Resp_Body ?resp)) = 2000"
    by simp
  from Generate_http_status_error [OF sample_reaches_test ans, THEN conjunct2] pre in2000
  show ?thesis
    unfolding ex by simp
qed

text \<open>
  The claim as first stated, for every response with status \<open>\<ge> 400\<close>, fails when the body
  exceeds the size ceiling: the size check comes first, and the error is the size-limit
  error, whose text does not hold the status code.
\<close>

theorem Generate_http_status_error_counterexample:
  "400 \<le> StatusCode \<lparr>StatusCode = 500,
                      Resp_Body = \<lparr>data = replicate 10485761 (CHR ''E''), failure = None, failsWithData = False\<rparr>\<rparr> \<and>
   snd (Generate samplelib
          (sampleClient ''key''
             (\<lambda>_. Inr \<lparr>StatusCode = 500,
                         Resp_Body = \<lparr>data = replicate 10485761 (CHR ''E''), failure = None, failsWithData = False\<rparr>\<rparr>))
          ''test'' [])
     = Inl ResponseTooLarge \<and>
   Error samplelib ResponseTooLarge = ''gemini: response exceeds 10485760 byte limit'' \<and>
   \<not> Contains (Error samplelib ResponseTooLarge) (Itoa 500)"
proof -
  have "snd (Generate samplelib
          (sampleClient ''key''
             (\<lambda>_. Inr \<lparr>StatusCode = 500,
                         Resp_Body = \<lparr>data = replicate 10485761 (CHR ''E''), failure = None, failsWithData = False\<rparr>\<rparr>))
          ''test'' [])
     = Inl ResponseTooLarge"
    unfolding Generate_reaches [OF sample_reaches_test]
    by (simp add: Let_def ReadAll_LimitReader_def sampleClient_def maxResponseBytes_def)
  moreover have "\<not> Contains ''gemini: response exceeds 10485760 byte limit'' ''500''"
    by (simp add: Contains.simps HasPrefix_def)
  ultimately show ?thesis
    by (simp add: Itoa_max Itoa_500)
qed

section \<open>Strings as the encoder writes them\<close>

lemma coerceUTF8_valid: "ValidString s \<Longrightarrow> coerceUTF8 s = s"
proof (induction s rule: coerceUTF8.induct)
  case (1 s)
  show ?case
  proof (cases "s = []")
    case True
    then show ?thesis by (simp add: coerceUTF8.simps)
  next
    case False
    obtain r w where d: "DecodeRuneInString s = (r, w)"
      by (cases "DecodeRuneInString s")
    from "1.prems" False d have ok: "\<not> (r = RuneError \<and> w = 1)" and rest: "ValidString (drop w s)"
      by (simp_all add: ValidString.simps [of s])
    from "1.IH"(2) [OF False d [symmetric] ok rest] have "coerceUTF8 (drop w s) = drop w s" .
    with False d ok show ?thesis
      by (subst coerceUTF8.simps) auto
  qed
qed

lemma coerceUTF8_length:
  "length s \<le> length (coerceUTF8 s) \<and>
   (\<not> ValidString s \<longrightarrow> length s < length (coerceUTF8 s))"
proof (induction s rule: coerceUTF8.induct)
  case (1 s)
  show ?case
  proof (cases "s = []")
    case True
    then show ?thesis by (simp add: coerceUTF8.simps ValidString.simps)
  next
    case False
    obtain r w where d: "DecodeRuneInString s = (r, w)"
      by (cases "DecodeRuneInString s")
    from DecodeRuneInString_size [OF False] d have w: "1 \<le> w" "w \<le> length s" by simp_all
    show ?thesis
    proof (cases "r = RuneError \<and> w = 1")
      case True
      from "1.IH"(1) [OF False d [symmetric] True]
      have "length (drop 1 s) \<le> length (coerceUTF8 (drop 1 s))" by simp
      with False d True w show ?thesis
        by (subst coerceUTF8.simps, subst (2) coerceUTF8.simps) (auto simp: ValidString.simps [of s])
    next
      case ne: False
      from "1.IH"(2) [OF False d [symmetric] ne]
      have ih: "length (drop w s) \<le> length (coerceUTF8 (drop w s)) \<and>
        (\<not> ValidString (drop w s) \<longrightarrow> length (drop w s) < length (coerceUTF8 (drop w s)))" .
      have c: "coerceUTF8 s = take w s @ coerceUTF8 (drop w s)"
        using False d ne by (subst coerceUTF8.simps) auto
      have v: "ValidString s = ValidString (drop w s)"
        using False d ne by (subst ValidString.simps) auto
      from ih w show ?thesis unfolding c v by auto
    qed
  qed
qed

lemma coerceUTF8_eq_iff: "coerceUTF8 s = s \<longleftrightarrow> ValidString s"
  using coerceUTF8_length [of s] coerceUTF8_valid [of s] by auto

lemma Contains_byte: "Contains s [c] \<longleftrightarrow> c \<in> set s"
  by (induction s) (auto simp: Contains.simps HasPrefix_def)

section \<open>The prompt is not validated\<close>

lemma Marshal_Request_buildRequest:
  "Marshal_Request (buildRequest p cfg) =
     (case Marshal_float64 (temperature cfg) of
        Inl e \<Rightarrow> Inl e
      | Inr j \<Rightarrow>
          Inr (JObject
                 ([(''contents'',
                      JArray [JObject [(''parts'',
                         JArray [JObject [(''text'', JString (coerceUTF8 p))]])]]),
                   (''generationConfig'',
                      JObject ((if maxTokens cfg = 0 then []
                                else [(''maxOutputTokens'', JNumber (of_int (maxTokens cfg)))])
                               @ [(''temperature'', j)]))]
                  @ (if googleSearch cfg
                     then [(''tools'', JArray [JObject [(''googleSearch'', JObject [])]])]
                     else []))))"
  by (simp add: Marshal_Request_def buildRequest_def Let_def Marshal_GenerationConfig_def
      Marshal_Content_def Marshal_Part_def Marshal_Tool_def split: sum.split)

lemma json_Marshal_prompt_independent:
  "json_Marshal lib (buildRequest p cfg) = Inl e \<Longrightarrow> json_Marshal lib (buildRequest p' cfg) = Inl e"
  by (auto simp: json_Marshal_def Marshal_Request_buildRequest split: sum.splits)

lemma geZero_not_ltZero: "geZero x \<Longrightarrow> \<not> ltZero x"
  by (cases x) simp_all

lemma snd_doRequest:
  "snd (doRequest lib c r)
     = resultOf lib (json_Marshal lib r) (url_Parse_error lib (requestURL c))
         (\<lambda>j. doer c (httpRequest c j))"
proof (cases "json_Marshal lib r")
  case (Inl err)
  then show ?thesis by (simp add: doRequest_def resultOf_def)
next
  case m: (Inr jsonData)
  show ?thesis
  proof (cases "url_Parse_error lib (requestURL c)")
    case (Some err)
    with m show ?thesis by (simp add: doRequest_def resultOf_def)
  next
    case u: None
    show ?thesis
    proof (cases "doer c (httpRequest c jsonData)")
      case (Inl err)
      with m u show ?thesis by (simp add: doRequest_def resultOf_def)
    next
      case a: (Inr resp)
      show ?thesis
      proof (cases "ReadAll_LimitReader (Resp_Body resp) (maxResponseBytes + 1)")
        case (Pair body rerr)
        show ?thesis
        proof (cases rerr)
          case (Some err)
          with m u a Pair show ?thesis by (simp add: doRequest_def resultOf_def)
        next
          case None
          note b = Pair [unfolded None]
          show ?thesis
          proof (cases "json_Unmarshal lib body")
            case (Inl err)
            with m u a b show ?thesis
              by (simp add: doRequest_def resultOf_def Let_def excerpt_def)
          next
            case (Inr resp')
            with m u a b show ?thesis
              by (simp add: doRequest_def resultOf_def Let_def excerpt_def)
          qed
        qed
      qed
    qed
  qed
qed

lemma doRequest_prompt_independent:
  assumes "\<And>j j'. json_Marshal lib (buildRequest p cfg) = Inr j \<Longrightarrow>
                   json_Marshal lib (buildRequest p' cfg) = Inr j' \<Longrightarrow>
                   doer c (httpRequest c j') = doer c (httpRequest c j)"
  shows "snd (doRequest lib c (buildRequest p' cfg)) = snd (doRequest lib c (buildRequest p cfg))"
proof (cases "json_Marshal lib (buildRequest p cfg)")
  case (Inl e)
  from json_Marshal_prompt_independent [OF this] Inl show ?thesis
    by (simp add: snd_doRequest resultOf_def)
next
  case (Inr j)
  have "\<exists>e. json_Marshal lib (buildRequest p' cfg) = Inl e \<Longrightarrow> False"
    using json_Marshal_prompt_independent [of lib p' cfg _ p] Inr by auto
  then obtain j' where j': "json_Marshal lib (buildRequest p' cfg) = Inr j'"
    by (cases "json_Marshal lib (buildRequest p' cfg)") auto
  from assms [OF Inr j'] Inr j' show ?thesis
    by (cases "url_Parse_error lib (requestURL c)") (simp_all add: snd_doRequest resultOf_def)
qed

text \<open>
  Claim C10, as amended. \<^verbatim>\<open>Generate\<close> does not validate the prompt. Its result does not
  depend on the prompt otherwise than through the answer of the executor: with the same
  client and options, two prompts give the same result whenever the executor answers the
  two requests alike. When the resolved max tokens are positive, the resolved temperature is
  a finite number \<open>\<ge> 0\<close> and the request URL parses, then for every prompt (the empty one
  and white space included) the request holding the prompt unchanged is built, and the
  executor is called with the HTTP request whose body is the encoding of the document
  holding the prompt coerced to valid UTF-8, which is the prompt itself exactly when the
  prompt is valid UTF-8.
\<close>

theorem Generate_no_prompt_validation:
  "((\<forall>j j'. json_Marshal lib (buildRequest p (resolveConfig opts)) = Inr j \<and>
            json_Marshal lib (buildRequest p' (resolveConfig opts)) = Inr j' \<longrightarrow>
              doer c (httpRequest c j') = doer c (httpRequest c j)) \<longrightarrow>
      snd (Generate lib c p' opts) = snd (Generate lib c p opts)) \<and>
   (0 < resolvedMaxTokens opts \<and> resolvedTemperature opts = Finite t \<and> 0 \<le> t \<and>
    url_Parse_error lib (requestURL c) = None \<and>
    jsonData = json_encode lib (JObject
       ([(''contents'',
            JArray [JObject [(''parts'', JArray [JObject [(''text'', JString (coerceUTF8 p))]])]]),
         (''generationConfig'',
            JObject [(''maxOutputTokens'', JNumber (of_int (resolvedMaxTokens opts))),
                     (''temperature'', JNumber t)])]
        @ (if googleSearch (resolveConfig opts)
           then [(''tools'', JArray [JObject [(''googleSearch'', JObject [])]])]
           else []))) \<longrightarrow>
      Request_Contents (buildRequest p (resolveConfig opts))
        = [\<lparr>Content_Parts = [\<lparr>Part_Text = p\<rparr>]\<rparr>] \<and>
      json_Marshal lib (buildRequest p (resolveConfig opts)) = Inr jsonData \<and>
      Req_Body (httpRequest c jsonData) = jsonData \<and>
      (\<exists>rest. fst (Generate lib c p opts) = Do (httpRequest c jsonData) # rest)) \<and>
   (coerceUTF8 p = p \<longleftrightarrow> ValidString p)"
proof (intro conjI impI)
  assume "\<forall>j j'. json_Marshal lib (buildRequest p (resolveConfig opts)) = Inr j \<and>
            json_Marshal lib (buildRequest p' (resolveConfig opts)) = Inr j' \<longrightarrow>
              doer c (httpRequest c j') = doer c (httpRequest c j)"
  then have "snd (doRequest lib c (buildRequest p' (resolveConfig opts)))
               = snd (doRequest lib c (buildRequest p (resolveConfig opts)))"
    by (intro doRequest_prompt_independent) blast
  then show "snd (Generate lib c p' opts) = snd (Generate lib c p opts)"
    by (simp add: Generate_def Let_def)
next
  assume h: "0 < resolvedMaxTokens opts \<and> resolvedTemperature opts = Finite t \<and> 0 \<le> t \<and>
    url_Parse_error lib (requestURL c) = None \<and>
    jsonData = json_encode lib (JObject
       ([(''contents'',
            JArray [JObject [(''parts'', JArray [JObject [(''text'', JString (coerceUTF8 p))]])]]),
         (''generationConfig'',
            JObject [(''maxOutputTokens'', JNumber (of_int (resolvedMaxTokens opts))),
                     (''temperature'', JNumber t)])]
        @ (if googleSearch (resolveConfig opts)
           then [(''tools'', JArray [JObject [(''googleSearch'', JObject [])]])]
           else [])))"
  show "Request_Contents (buildRequest p (resolveConfig opts))
          = [\<lparr>Content_Parts = [\<lparr>Part_Text = p\<rparr>]\<rparr>]"
    by (simp add: buildRequest_def Let_def)
  from h show j: "json_Marshal lib (buildRequest p (resolveConfig opts)) = Inr jsonData"
    by (simp add: json_Marshal_def Marshal_Request_buildRequest resolveConfig_maxTokens
        resolveConfig_temperature)
  show "Req_Body (httpRequest c jsonData) = jsonData"
    by (simp add: httpRequest_def)
  from h j have r: "reachesExecutor lib c p opts jsonData"
    by (simp add: reachesExecutor_def)
  show "\<exists>rest. fst (Generate lib c p opts) = Do (httpRequest c jsonData) # rest"
    by (auto simp: Generate_reaches [OF r] Let_def split: sum.split prod.split option.split)
next
  show "coerceUTF8 p = p \<longleftrightarrow> ValidString p"
    by (rule coerceUTF8_eq_iff)
qed

lemma sample_url_ok:
  "url_Parse_error samplelib (requestURL (sampleClient key d)) = None"
  by (simp add: samplelib_def requestURL_def sampleClient_def defaultBaseURL_def defaultModel_def)

lemma sample_reaches:
  "reachesExecutor samplelib (sampleClient key d) p []
     (sample_encode (JObject
         [(''contents'',
             JArray [JObject [(''parts'', JArray [JObject [(''text'', JString (coerceUTF8 p))]])]]),
          (''generationConfig'',
             JObject [(''maxOutputTokens'', JNumber 32000), (''temperature'', JNumber 1)])]))"
  by (simp add: reachesExecutor_def sample_url_ok resolvedMaxTokens_def resolvedTemperature_def
      json_Marshal_def Marshal_Request_buildRequest)
     (simp add: resolveConfig_def samplelib_def)

theorem Generate_no_prompt_validation_witness:
  "snd (Generate samplelib (sampleClient ''key'' (\<lambda>_. Inl ''offline'')) [] [])
     = snd (Generate samplelib (sampleClient ''key'' (\<lambda>_. Inl ''offline'')) ''hello'' []) \<and>
   Request_Contents (buildRequest ''  \<newline> '' (resolveConfig []))
     = [\<lparr>Content_Parts = [\<lparr>Part_Text = ''  \<newline> ''\<rparr>]\<rparr>] \<and>
   json_Marshal samplelib (buildRequest ''  \<newline> '' (resolveConfig []))
     = Inr (sample_encode (JObject
         [(''contents'',
             JArray [JObject [(''parts'', JArray [JObject [(''text'', JString ''  \<newline> '')]])]]),
          (''generationConfig'',
             JObject [(''maxOutputTokens'', JNumber 32000), (''temperature'', JNumber 1)])])) \<and>
   (\<exists>rest. fst (Generate samplelib (sampleClient ''key'' (\<lambda>_. Inl ''offline'')) ''  \<newline> '' [])
      = Do (httpRequest (sampleClient ''key'' (\<lambda>_. Inl ''offline''))
              (sample_encode (JObject
                 [(''contents'',
                     JArray [JObject [(''parts'',
                        JArray [JObject [(''text'', JString ''  \<newline> '')]])]]),
                  (''generationConfig'',
                     JObject [(''maxOutputTokens'', JNumber 32000),
                              (''temperature'', JNumber 1)])]))) # rest) \<and>
   coerceUTF8 ''  \<newline> '' = ''  \<newline> ''"
proof -
  let ?c = "sampleClient ''key'' (\<lambda>_. Inl ''offline'')"
  let ?ws = "''  \<newline> ''"
  have v: "ValidString ?ws"
    by (simp add: ValidString.simps DecodeRuneInString_def RuneError_def)
  have a: "\<forall>j j'. json_Marshal samplelib (buildRequest ''hello'' (resolveConfig [])) = Inr j \<and>
            json_Marshal samplelib (buildRequest [] (resolveConfig [])) = Inr j' \<longrightarrow>
              doer ?c (httpRequest ?c j') = doer ?c (httpRequest ?c j)"
    by (simp add: sampleClient_def)
  have g: "googleSearch (resolveConfig []) = False"
    by (simp add: resolveConfig_def)
  have e: "json_encode samplelib = sample_encode"
    by (simp add: samplelib_def)
  have h: "0 < resolvedMaxTokens [] \<and> resolvedTemperature [] = Finite 1 \<and> (0::real) \<le> 1 \<and>
    url_Parse_error samplelib (requestURL ?c) = None \<and>
    sample_encode (JObject
         [(''contents'',
             JArray [JObject [(''parts'', JArray [JObject [(''text'', JString ''  \<newline> '')]])]]),
          (''generationConfig'',
             JObject [(''maxOutputTokens'', JNumber 32000), (''temperature'', JNumber 1)])])
     = json_encode samplelib (JObject
       ([(''contents'',
            JArray [JObject [(''parts'', JArray [JObject [(''text'', JString (coerceUTF8 ?ws))]])]]),
         (''generationConfig'',
            JObject [(''maxOutputTokens'', JNumber (of_int (resolvedMaxTokens []))),
                     (''temperature'', JNumber 1)])]
        @ (if googleSearch (resolveConfig [])
           then [(''tools'', JArray [JObject [(''googleSearch'', JObject [])]])]
           else [])))"
    unfolding g coerceUTF8_valid [OF v] e
    by (simp add: resolvedMaxTokens_def resolvedTemperature_def sample_url_ok)
  note t = Generate_no_prompt_validation
             [where lib = samplelib and c = ?c and opts = "[]" and p = "''hello''" and p' = "[]"]
  note t' = Generate_no_prompt_validation
             [where lib = samplelib and c = ?c and opts = "[]" and p = ?ws and t = 1]
  from t [THEN conjunct1, THEN mp, OF a]
       t' [THEN conjunct2, THEN conjunct1, THEN mp, OF h]
       t' [THEN conjunct2, THEN conjunct2] v
  show ?thesis by blast
qed

text \<open>
  With valid parameters alone the request need not reach the executor: the temperature
  \<open>+Inf\<close> passes validation (\<open>+Inf < 0\<close> is false) and \<^verbatim>\<open>json.Marshal\<close> refuses it; a model
  name with a control character gives a URL that \<^verbatim>\<open>http.NewRequestWithContext\<close> refuses.
  And the prompt is not in the body as it is when it is not valid UTF-8: the prompts
  \<^verbatim>\<open>FF\<close> and \<^verbatim>\<open>FE\<close> go to the executor in the same body, which holds neither byte.
\<close>

theorem Generate_no_prompt_validation_counterexample:
  "0 < resolvedMaxTokens [WithTemperature PosInf] \<and>
   geZero (resolvedTemperature [WithTemperature PosInf]) \<and>
   Generate samplelib
       (sampleClient ''key''
          (\<lambda>_. Inr \<lparr>StatusCode = 200, Resp_Body = \<lparr>data = ''{}'', failure = None, failsWithData = False\<rparr>\<rparr>))
       ''hello'' [WithTemperature PosInf]
     = ([], Inl (MarshalRequest ''json: unsupported value: +Inf'')) \<and>
   0 < resolvedMaxTokens [] \<and>
   geZero (resolvedTemperature []) \<and>
   Generate samplelib
       ((sampleClient ''key''
           (\<lambda>_. Inr \<lparr>StatusCode = 200, Resp_Body = \<lparr>data = ''{}'', failure = None, failsWithData = False\<rparr>\<rparr>))
        \<lparr>model := ''gemini\<newline>pro''\<rparr>)
       ''hello'' []
     = ([], Inl (CreateRequest ''net/url: invalid control character in URL'')) \<and>
   Generate samplelib (sampleClient ''key'' (\<lambda>_. Inl ''offline'')) [CHR 0xFF] []
     = ([Do (httpRequest (sampleClient ''key'' (\<lambda>_. Inl ''offline''))
               (sample_encode (JObject
                  [(''contents'',
                      JArray [JObject [(''parts'',
                         JArray [JObject [(''text'', JString [CHR 0xEF, CHR 0xBF, CHR 0xBD])]])]]),
                   (''generationConfig'',
                      JObject [(''maxOutputTokens'', JNumber 32000),
                               (''temperature'', JNumber 1)])])))],
        Inl (DoRequest ''offline'')) \<and>
   Generate samplelib (sampleClient ''key'' (\<lambda>_. Inl ''offline'')) [CHR 0xFE] []
     = Generate samplelib (sampleClient ''key'' (\<lambda>_. Inl ''offline'')) [CHR 0xFF] [] \<and>
   \<not> Contains
       (sample_encode (JObject
          [(''contents'',
              JArray [JObject [(''parts'',
                 JArray [JObject [(''text'', JString [CHR 0xEF, CHR 0xBF, CHR 0xBD])]])]]),
           (''generationConfig'',
              JObject [(''maxOutputTokens'', JNumber 32000), (''temperature'', JNumber 1)])]))
       [CHR 0xFF]"
proof -
  have a: "0 < resolvedMaxTokens [WithTemperature PosInf] \<and>
           \<not> ltZero (resolvedTemperature [WithTemperature PosInf])"
    by (simp add: resolvedMaxTokens_def resolvedTemperature_def)
  have b: "0 < resolvedMaxTokens [] \<and> \<not> ltZero (resolvedTemperature [])"
    by (simp add: resolvedMaxTokens_def resolvedTemperature_def)
  have m: "json_Marshal lib (buildRequest p (resolveConfig [WithTemperature PosInf]))
             = Inl ''json: unsupported value: +Inf''" for lib p
    by (simp add: json_Marshal_def Marshal_Request_buildRequest resolveConfig_def)
  have m': "\<exists>j. json_Marshal samplelib (buildRequest ''hello'' (resolveConfig [])) = Inr j"
    by (simp add: json_Marshal_def Marshal_Request_buildRequest resolveConfig_def)
  have u: "url_Parse_error samplelib
             (requestURL ((sampleClient ''key'' d)\<lparr>model := ''gemini\<newline>pro''\<rparr>))
           = Some ''net/url: invalid control character in URL''" for d
    by (simp add: samplelib_def requestURL_def sampleClient_def defaultBaseURL_def)
  have first: "Generate samplelib
       (sampleClient ''key''
          (\<lambda>_. Inr \<lparr>StatusCode = 200, Resp_Body = \<lparr>data = ''{}'', failure = None, failsWithData = False\<rparr>\<rparr>))
       ''hello'' [WithTemperature PosInf]
     = ([], Inl (MarshalRequest ''json: unsupported value: +Inf''))"
    using a m by (simp add: Generate_valid doRequest_def)
  have second: "Generate samplelib
       ((sampleClient ''key''
           (\<lambda>_. Inr \<lparr>StatusCode = 200, Resp_Body = \<lparr>data = ''{}'', failure = None, failsWithData = False\<rparr>\<rparr>))
        \<lparr>model := ''gemini\<newline>pro''\<rparr>)
       ''hello'' []
     = ([], Inl (CreateRequest ''net/url: invalid control character in URL''))"
    using b m' u by (auto simp: Generate_valid doRequest_def)
  have ff: "coerceUTF8 [CHR 0xFF] = [CHR 0xEF, CHR 0xBF, CHR 0xBD]"
    by (simp add: coerceUTF8.simps DecodeRuneInString_def)
  have fe: "coerceUTF8 [CHR 0xFE] = [CHR 0xEF, CHR 0xBF, CHR 0xBD]"
    by (simp add: coerceUTF8.simps DecodeRuneInString_def)
  have third: "Generate samplelib (sampleClient ''key'' (\<lambda>_. Inl ''offline'')) [CHR 0xFF] []
     = ([Do (httpRequest (sampleClient ''key'' (\<lambda>_. Inl ''offline''))
               (sample_encode (JObject
                  [(''contents'',
                      JArray [JObject [(''parts'',
                         JArray [JObject [(''text'', JString [CHR 0xEF, CHR 0xBF, CHR 0xBD])]])]]),
                   (''generationConfig'',
                      JObject [(''maxOutputTokens'', JNumber 32000),
                               (''temperature'', JNumber 1)])])))],
        Inl (DoRequest ''offline''))"
    using Generate_reaches [OF sample_reaches [of "''key''" "\<lambda>_. Inl ''offline''" "[CHR 0xFF]"]]
    unfolding ff by (simp add: sampleClient_def)
  have fourth: "Generate samplelib (sampleClient ''key'' (\<lambda>_. Inl ''offline'')) [CHR 0xFE] []
     = ([Do (httpRequest (sampleClient ''key'' (\<lambda>_. Inl ''offline''))
               (sample_encode (JObject
                  [(''contents'',
                      JArray [JObject [(''parts'',
                         JArray [JObject [(''text'', JString [CHR 0xEF, CHR 0xBF, CHR 0xBD])]])]]),
                   (''generationConfig'',
                      JObject [(''maxOutputTokens'', JNumber 32000),
                               (''temperature'', JNumber 1)])])))],
        Inl (DoRequest ''offline''))"
    using Generate_reaches [OF sample_reaches [of "''key''" "\<lambda>_. Inl ''offline''" "[CHR 0xFE]"]]
    unfolding fe by (simp add: sampleClient_def)
  have fifth: "\<not> Contains
       (sample_encode (JObject
          [(''contents'',
              JArray [JObject [(''parts'',
                 JArray [JObject [(''text'', JString [CHR 0xEF, CHR 0xBF, CHR 0xBD])]])]]),
           (''generationConfig'',
              JObject [(''maxOutputTokens'', JNumber 32000), (''temperature'', JNumber 1)])]))
       [CHR 0xFF]"
    unfolding Contains_byte
    by (simp add: quoteJSON_def Join_def Itoa_def natToString.simps)
  from a b first second third fourth fifth show ?thesis
    by (simp add: resolvedTemperature_def)
qed

section \<open>The API key and the error text\<close>

lemma doRequest_error_key_independent2:
  assumes "model c' = model c" and "baseURL c' = baseURL c"
    and "\<And>j. doer c' (httpRequest c' j) = doer c (httpRequest c j)"
  shows "snd (doRequest lib c' r) = snd (doRequest lib c r)"
proof -
  have u: "requestURL c' = requestURL c" using assms(1,2) by (simp add: requestURL_def)
  show ?thesis
    unfolding snd_doRequest u by (simp only: assms(3))
qed

text \<open>
  Claim C8, as amended. The client does not put the API key into an error: an error of
  \<^verbatim>\<open>New\<close> is the fixed empty-key error for a blank key, and otherwise the insecure-URL error
  naming the base URL, the same for every key that is not blank; and two clients with the
  same model and base URL whose executors answer alike get the same result from
  \<^verbatim>\<open>Generate\<close>, whatever their API keys are.
\<close>

theorem error_text_independent_of_apiKey:
  "(\<forall>e. snd (New hc k opts) = Inl e \<longrightarrow>
      (blank k \<and> e = EmptyAPIKey) \<or>
      (\<not> blank k \<and> e = InsecureBaseURL (resultingBaseURL opts) \<and>
       (\<forall>k'. \<not> blank k' \<longrightarrow> snd (New hc k' opts) = Inl e))) \<and>
   (model c' = model c \<and> baseURL c' = baseURL c \<and>
    (\<forall>j. doer c' (httpRequest c' j) = doer c (httpRequest c j)) \<longrightarrow>
      snd (Generate lib c' p gopts) = snd (Generate lib c p gopts))"
proof (intro conjI impI)
  show "\<forall>e. snd (New hc k opts) = Inl e \<longrightarrow>
      (blank k \<and> e = EmptyAPIKey) \<or>
      (\<not> blank k \<and> e = InsecureBaseURL (resultingBaseURL opts) \<and>
       (\<forall>k'. \<not> blank k' \<longrightarrow> snd (New hc k' opts) = Inl e))"
    by (auto simp: New_def Let_def blank_def resultingBaseURL_def TrimSpace_empty_iff
        baseURL_fold_applyOption split: if_splits)
next
  assume "model c' = model c \<and> baseURL c' = baseURL c \<and>
    (\<forall>j. doer c' (httpRequest c' j) = doer c (httpRequest c j))"
  then have "snd (doRequest lib c' r) = snd (doRequest lib c r)" for r
    by (intro doRequest_error_key_independent2) simp_all
  then show "snd (Generate lib c' p gopts) = snd (Generate lib c p gopts)"
    by (simp add: Generate_def Let_def)
qed

theorem error_text_independent_of_apiKey_witness:
  "snd (New (\<lambda>_. Inl ''offline'') ''key-one'' [WithBaseURL ''http://insecure.example.com''])
     = Inl (InsecureBaseURL ''http://insecure.example.com'') \<and>
   snd (New (\<lambda>_. Inl ''offline'') ''key-two'' [WithBaseURL ''http://insecure.example.com''])
     = Inl (InsecureBaseURL ''http://insecure.example.com'') \<and>
   snd (Generate samplelib (sampleClient ''key-one'' (\<lambda>_. Inl ''connection refused'')) ''hi'' [])
     = Inl (DoRequest ''connection refused'') \<and>
   snd (Generate samplelib (sampleClient ''key-two'' (\<lambda>_. Inl ''connection refused'')) ''hi'' [])
     = Inl (DoRequest ''connection refused'')"
proof -
  have n1: "snd (New (\<lambda>_. Inl ''offline'') ''key-one'' [WithBaseURL ''http://insecure.example.com''])
     = Inl (InsecureBaseURL ''http://insecure.example.com'')"
    by (simp add: New_def TrimSpace_empty_iff runes.simps DecodeRuneInString_def IsSpace_def
        HasPrefix_def)
  have nb: "\<not> blank ''key-two''"
    by (simp add: blank_def runes.simps DecodeRuneInString_def IsSpace_def)
  have n2: "snd (New (\<lambda>_. Inl ''offline'') ''key-two'' [WithBaseURL ''http://insecure.example.com''])
     = Inl (InsecureBaseURL ''http://insecure.example.com'')"
    using error_text_independent_of_apiKey
            [where hc = "\<lambda>_. Inl ''offline''" and k = "''key-one''"
               and opts = "[WithBaseURL ''http://insecure.example.com'']",
             THEN conjunct1, rule_format, OF n1] nb
    by auto
  have g1: "snd (Generate samplelib
          (sampleClient ''key-one'' (\<lambda>_. Inl ''connection refused'')) ''hi'' [])
     = Inl (DoRequest ''connection refused'')"
    using Generate_reaches [OF sample_reaches [of "''key-one''" "\<lambda>_. Inl ''connection refused''" "''hi''"]]
    by (simp add: sampleClient_def)
  have h: "model (sampleClient ''key-two'' (\<lambda>_. Inl ''connection refused''))
             = model (sampleClient ''key-one'' (\<lambda>_. Inl ''connection refused'')) \<and>
           baseURL (sampleClient ''key-two'' (\<lambda>_. Inl ''connection refused''))
             = baseURL (sampleClient ''key-one'' (\<lambda>_. Inl ''connection refused'')) \<and>
           (\<forall>j. doer (sampleClient ''key-two'' (\<lambda>_. Inl ''connection refused''))
                  (httpRequest (sampleClient ''key-two'' (\<lambda>_. Inl ''connection refused'')) j)
             = doer (sampleClient ''key-one'' (\<lambda>_. Inl ''connection refused''))
                  (httpRequest (sampleClient ''key-one'' (\<lambda>_. Inl ''connection refused'')) j))"
    by (simp add: sampleClient_def)
  have g2: "snd (Generate samplelib
          (sampleClient ''key-two'' (\<lambda>_. Inl ''connection refused'')) ''hi'' [])
     = Inl (DoRequest ''connection refused'')"
    using error_text_independent_of_apiKey
            [where c = "sampleClient ''key-one'' (\<lambda>_. Inl ''connection refused'')"
               and c' = "sampleClient ''key-two'' (\<lambda>_. Inl ''connection refused'')"
               and lib = samplelib and p = "''hi''" and gopts = "[]",
             THEN conjunct2, THEN mp, OF h] g1
    by simp
  from n1 n2 g1 g2 show ?thesis by blast
qed

text \<open>
  The claim as first stated fails: the excerpt of an error body goes into the error text as
  it is, so a server that repeats the key in its error body puts it into the error text.
\<close>

lemma New_sampleClient:
  "\<not> blank key \<Longrightarrow> New hc key [WithDoer d] = ([], Inr (sampleClient key d))"
  by (simp add: New_def blank_def TrimSpace_empty_iff sampleClient_def defaultBaseURL_def
      HasPrefix_def)

theorem error_text_contains_apiKey_counterexample:
  "New (\<lambda>_. Inl ''offline'') ''secret-key''
       [WithDoer (\<lambda>_. Inr \<lparr>StatusCode = 403,
                            Resp_Body = \<lparr>data = ''API key not valid: secret-key'',
                                         failure = None, failsWithData = False\<rparr>\<rparr>)]
     = ([], Inr (sampleClient ''secret-key''
                   (\<lambda>_. Inr \<lparr>StatusCode = 403,
                               Resp_Body = \<lparr>data = ''API key not valid: secret-key'',
                                            failure = None, failsWithData = False\<rparr>\<rparr>))) \<and>
   snd (Generate samplelib
          (sampleClient ''secret-key''
             (\<lambda>_. Inr \<lparr>StatusCode = 403,
                         Resp_Body = \<lparr>data = ''API key not valid: secret-key'',
                                      failure = None, failsWithData = False\<rparr>\<rparr>))
          ''hi'' [])
     = Inl (HTTPStatus 403 ''API key not valid: secret-key'') \<and>
   Error samplelib (HTTPStatus 403 ''API key not valid: secret-key'')
     = ''gemini: HTTP 403: API key not valid: secret-key'' \<and>
   Contains (Error samplelib (HTTPStatus 403 ''API key not valid: secret-key'')) ''secret-key''"
proof -
  have nb: "\<not> blank ''secret-key''"
    by (simp add: blank_def runes.simps DecodeRuneInString_def IsSpace_def)
  have g: "snd (Generate samplelib
          (sampleClient ''secret-key''
             (\<lambda>_. Inr \<lparr>StatusCode = 403,
                         Resp_Body = \<lparr>data = ''API key not valid: secret-key'',
                                      failure = None, failsWithData = False\<rparr>\<rparr>))
          ''hi'' [])
     = Inl (HTTPStatus 403 ''API key not valid: secret-key'')"
    unfolding Generate_reaches [OF sample_reaches]
    by (simp add: Let_def ReadAll_LimitReader_def sampleClient_def maxResponseBytes_def
        maxErrorBodyBytes_def)
  have t: "Error samplelib (HTTPStatus 403 ''API key not valid: secret-key'')
     = ''gemini: HTTP 403: API key not valid: secret-key''"
    by (simp add: Itoa_def natToString.simps)
  have c: "Contains ''gemini: HTTP 403: API key not valid: secret-key'' ''secret-key''"
    by (simp add: Contains.simps HasPrefix_def)
  from New_sampleClient [OF nb] g t c show ?thesis by simp
qed

section \<open>The command line\<close>

lemma foldl_Join: "foldl (\<lambda>b s. b @ sep @ s) acc xs = acc @ concat (map (\<lambda>s. sep @ s) xs)"
  by (induction xs arbitrary: acc) simp_all

lemma Join_Cons: "Join (x # xs) sep = x @ concat (map (\<lambda>s. sep @ s) xs)"
  by (cases xs) (simp_all add: Join_def foldl_Join)

lemma generateCalls_map_InClient [simp]: "generateCalls (map InClient evs) = []"
  by (induction evs) (simp_all add: generateCalls_def)

lemma generateCalls_append [simp]:
  "generateCalls (xs @ ys) = generateCalls xs @ generateCalls ys"
  by (simp add: generateCalls_def)

lemma generateCalls_simps [simp]:
  "generateCalls [] = []"
  "generateCalls (CallGenerate p g # evs) = p # generateCalls evs"
  "generateCalls (CallNew k # evs) = generateCalls evs"
  "generateCalls (Stderr s # evs) = generateCalls evs"
  "generateCalls (Stdout s # evs) = generateCalls evs"
  "generateCalls (Panic # evs) = generateCalls evs"
  by (simp_all add: generateCalls_def)




section \<open>Serializing a request and reading it back\<close>

lemma roundtrip_Part:
  "ValidString (Part_Text p) \<Longrightarrow> Unmarshal_Part (Marshal_Part p) = Inr p"
  by (simp add: Unmarshal_Part_def Marshal_Part_def field_def coerceUTF8_valid)

lemma roundtrip_Parts:
  "list_all (\<lambda>p. ValidString (Part_Text p)) ps \<Longrightarrow>
     mapE Unmarshal_Part (map Marshal_Part ps) = Inr ps"
  by (induction ps) (simp_all add: roundtrip_Part)

lemma roundtrip_Content:
  "list_all (\<lambda>p. ValidString (Part_Text p)) (Content_Parts c) \<Longrightarrow>
     Unmarshal_Content (Marshal_Content c) = Inr c"
  by (simp add: Unmarshal_Content_def Marshal_Content_def field_def roundtrip_Parts)

lemma roundtrip_Contents:
  "list_all (\<lambda>c. list_all (\<lambda>p. ValidString (Part_Text p)) (Content_Parts c)) cs \<Longrightarrow>
     mapE Unmarshal_Content (map Marshal_Content cs) = Inr cs"
  by (induction cs) (simp_all add: roundtrip_Content)

lemma roundtrip_Tool: "Unmarshal_Tool (Marshal_Tool t) = Inr t"
  by (cases "Tool_GoogleSearch t")
     (simp_all add: Unmarshal_Tool_def Marshal_Tool_def field_def)

lemma roundtrip_Tools: "mapE Unmarshal_Tool (map Marshal_Tool ts) = Inr ts"
  by (induction ts) (simp_all add: roundtrip_Tool)

lemma roundtrip_GenerationConfig:
  assumes "case Temperature g of None \<Rightarrow> True | Some t \<Rightarrow> isFinite t"
  shows "\<exists>j. Marshal_GenerationConfig g = Inr (JObject j) \<and>
             Unmarshal_GenerationConfig (Some (JObject j)) = Inr g \<and>
             (\<forall>x. Temperature g = Some (Finite x) \<longrightarrow> field ''temperature'' j = Some (JNumber x)) \<and>
             (Temperature g = None \<longrightarrow> field ''temperature'' j = None)"
proof (cases "Temperature g")
  case None
  then show ?thesis
    by (simp add: Marshal_GenerationConfig_def Unmarshal_GenerationConfig_def field_def
        Unmarshal_int_def Unmarshal_float64_ptr_def)
next
  case (Some t)
  with assms obtain x where "t = Finite x" by (cases t) auto
  with Some show ?thesis
    by (simp add: Marshal_GenerationConfig_def Unmarshal_GenerationConfig_def field_def
        Unmarshal_int_def Unmarshal_float64_ptr_def)
qed

text \<open>
  Claim C7, as amended. A request whose temperature is absent or finite and whose part
  texts are valid UTF-8 (whatever its max tokens) serializes, and decoding the document
  gives the request back, with a \<^verbatim>\<open>Tools\<close> slice that is nil in place of one that was empty
  and not nil: the same request, then, when its \<^verbatim>\<open>Tools\<close> are nil or not empty. So it is for
  the bytes, with a library whose decoder reads back the document that its encoder wrote.
  A temperature that is present is written under the key \<^verbatim>\<open>temperature\<close> of the
  \<^verbatim>\<open>generationConfig\<close> object, also when it is \<open>0\<close>; the key is left out only when the
  temperature is absent.
\<close>

theorem Request_roundtrip:
  assumes "validTexts r" and "finiteTemperature r"
  shows "\<exists>kvs g. Marshal_Request r = Inr (JObject kvs) \<and>
           json_Marshal lib r = Inr (json_encode lib (JObject kvs)) \<and>
           Unmarshal_Request (JObject kvs)
             = Inr (r\<lparr>Request_Tools := (if Request_Tools r = Some [] then None
                                        else Request_Tools r)\<rparr>) \<and>
           (Request_Tools r \<noteq> Some [] \<longrightarrow>
              Unmarshal_Request (JObject kvs) = Inr r \<and>
              (json_decode lib (json_encode lib (JObject kvs)) = Inr (JObject kvs) \<longrightarrow>
                 json_Unmarshal_Request lib (json_encode lib (JObject kvs)) = Inr r)) \<and>
           field ''generationConfig'' kvs = Some (JObject g) \<and>
           (\<forall>x. Temperature (Request_GenerationConfig r) = Some (Finite x) \<longrightarrow>
                field ''temperature'' g = Some (JNumber x)) \<and>
           (Temperature (Request_GenerationConfig r) = None \<longrightarrow> field ''temperature'' g = None)"
proof -
  from assms(2) roundtrip_GenerationConfig [of "Request_GenerationConfig r"]
  obtain g where g: "Marshal_GenerationConfig (Request_GenerationConfig r) = Inr (JObject g)"
    "Unmarshal_GenerationConfig (Some (JObject g)) = Inr (Request_GenerationConfig r)"
    "\<forall>x. Temperature (Request_GenerationConfig r) = Some (Finite x) \<longrightarrow>
         field ''temperature'' g = Some (JNumber x)"
    "Temperature (Request_GenerationConfig r) = None \<longrightarrow> field ''temperature'' g = None"
    by (auto simp: finiteTemperature_def)
  from assms(1) have c: "mapE Unmarshal_Content (map Marshal_Content (Request_Contents r))
      = Inr (Request_Contents r)"
    by (simp add: validTexts_def roundtrip_Contents)
  define kvs where "kvs =
     [(''contents'', JArray (map Marshal_Content (Request_Contents r))),
      (''generationConfig'', JObject g)]
     @ (case Request_Tools r of
          None \<Rightarrow> []
        | Some ts \<Rightarrow> if length ts = 0 then [] else [(''tools'', JArray (map Marshal_Tool ts))])"
  have m: "Marshal_Request r = Inr (JObject kvs)"
    using g(1) by (simp add: Marshal_Request_def kvs_def)
  have jm: "json_Marshal lib r = Inr (json_encode lib (JObject kvs))"
    using m by (simp add: json_Marshal_def)
  have fc: "field ''contents'' kvs = Some (JArray (map Marshal_Content (Request_Contents r)))"
    by (simp add: kvs_def field_def split: option.split)
  have fg: "field ''generationConfig'' kvs = Some (JObject g)"
    by (simp add: kvs_def field_def split: option.split)
  have ft: "Unmarshal_slice Unmarshal_Tool (field ''tools'' kvs)
              = Inr (if Request_Tools r = Some [] then None else Request_Tools r)"
  proof (cases "Request_Tools r")
    case None
    then show ?thesis by (simp add: kvs_def field_def Unmarshal_slice_def)
  next
    case (Some ts)
    then show ?thesis
      by (cases ts)
         (simp_all add: kvs_def field_def Unmarshal_slice_def roundtrip_Tool
            roundtrip_Tools)
  qed
  have u: "Unmarshal_Request (JObject kvs)
             = Inr (r\<lparr>Request_Tools := (if Request_Tools r = Some [] then None
                                        else Request_Tools r)\<rparr>)"
    using c g(2) by (simp add: Unmarshal_Request_def fc fg ft Unmarshal_list_def)
  have u': "Unmarshal_Request (JObject kvs) = Inr r" if "Request_Tools r \<noteq> Some []"
    using that by (simp add: u)
  have b: "json_Unmarshal_Request lib (json_encode lib (JObject kvs)) = Inr r"
    if "Request_Tools r \<noteq> Some []"
      and "json_decode lib (json_encode lib (JObject kvs)) = Inr (JObject kvs)"
    using that u' by (simp add: json_Unmarshal_Request_def)
  show ?thesis
  proof (rule exI [of _ kvs], rule exI [of _ g], intro conjI impI)
    show "Marshal_Request r = Inr (JObject kvs)" by (rule m)
    show "json_Marshal lib r = Inr (json_encode lib (JObject kvs))" by (rule jm)
    show "Unmarshal_Request (JObject kvs)
            = Inr (r\<lparr>Request_Tools := (if Request_Tools r = Some [] then None
                                       else Request_Tools r)\<rparr>)" by (rule u)
    show "Unmarshal_Request (JObject kvs) = Inr r" if "Request_Tools r \<noteq> Some []"
      using that by (rule u')
    show "json_Unmarshal_Request lib (json_encode lib (JObject kvs)) = Inr r"
      if "Request_Tools r \<noteq> Some []"
        and "json_decode lib (json_encode lib (JObject kvs)) = Inr (JObject kvs)"
      using that by (rule b)
    show "field ''generationConfig'' kvs = Some (JObject g)" by (rule fg)
    show "\<forall>x. Temperature (Request_GenerationConfig r) = Some (Finite x) \<longrightarrow>
               field ''temperature'' g = Some (JNumber x)" by (rule g(3))
    show "field ''temperature'' g = None" if "Temperature (Request_GenerationConfig r) = None"
      using that g(4) by simp
  qed
qed

theorem Request_roundtrip_witness:
  "validTexts (sampleRequest [CHR ''h'', CHR 0xC3, CHR 0xA9, CHR '' ''] (Finite 0)) \<and>
   finiteTemperature (sampleRequest [CHR ''h'', CHR 0xC3, CHR 0xA9, CHR '' ''] (Finite 0)) \<and>
   Request_Tools (sampleRequest [CHR ''h'', CHR 0xC3, CHR 0xA9, CHR '' ''] (Finite 0)) \<noteq> Some [] \<and>
   Marshal_Request (sampleRequest [CHR ''h'', CHR 0xC3, CHR 0xA9, CHR '' ''] (Finite 0))
     = Inr sampleDocument \<and>
   Unmarshal_Request sampleDocument
     = Inr (sampleRequest [CHR ''h'', CHR 0xC3, CHR 0xA9, CHR '' ''] (Finite 0)) \<and>
   json_Marshal samplelib (sampleRequest [CHR ''h'', CHR 0xC3, CHR 0xA9, CHR '' ''] (Finite 0))
     = Inr (sample_encode sampleDocument) \<and>
   json_decode samplelib (sample_encode sampleDocument) = Inr sampleDocument \<and>
   json_Unmarshal_Request samplelib (sample_encode sampleDocument)
     = Inr (sampleRequest [CHR ''h'', CHR 0xC3, CHR 0xA9, CHR '' ''] (Finite 0)) \<and>
   (\<exists>kvs g. sampleDocument = JObject kvs \<and>
      field ''generationConfig'' kvs = Some (JObject g) \<and>
      field ''temperature'' g = Some (JNumber 0))"
proof -
  let ?r = "sampleRequest [CHR ''h'', CHR 0xC3, CHR 0xA9, CHR '' ''] (Finite 0)"
  have v: "validTexts ?r"
    by (simp add: validTexts_def sampleRequest_def ValidString.simps DecodeRuneInString_def
        RuneError_def Let_def)
  have f: "finiteTemperature ?r"
    by (simp add: finiteTemperature_def sampleRequest_def)
  have n: "Request_Tools ?r \<noteq> Some []"
    by (simp add: sampleRequest_def)
  have t: "Temperature (Request_GenerationConfig ?r) = Some (Finite 0)"
    by (simp add: sampleRequest_def)
  have c: "coerceUTF8 [CHR ''h'', CHR 0xC3, CHR 0xA9, CHR '' ''] = [CHR ''h'', CHR 0xC3, CHR 0xA9, CHR '' '']"
    using v by (intro coerceUTF8_valid) (simp add: validTexts_def sampleRequest_def)
  have m: "Marshal_Request ?r = Inr sampleDocument"
    by (simp add: sampleRequest_def Marshal_Request_def Marshal_GenerationConfig_def
        Marshal_Content_def Marshal_Part_def Marshal_Tool_def c sampleDocument_def)
  have d: "json_decode samplelib (sample_encode sampleDocument) = Inr sampleDocument"
    by (simp add: samplelib_def sample_decode_def decodeAmong_def)
  have e: "json_encode samplelib = sample_encode"
    by (simp add: samplelib_def)
  from Request_roundtrip [OF v f, of samplelib]
  obtain kvs g where k: "Marshal_Request ?r = Inr (JObject kvs)"
    and jm: "json_Marshal samplelib ?r = Inr (json_encode samplelib (JObject kvs))"
    and imp: "Request_Tools ?r \<noteq> Some [] \<longrightarrow>
              Unmarshal_Request (JObject kvs) = Inr ?r \<and>
              (json_decode samplelib (json_encode samplelib (JObject kvs)) = Inr (JObject kvs) \<longrightarrow>
                 json_Unmarshal_Request samplelib (json_encode samplelib (JObject kvs)) = Inr ?r)"
    and fg: "field ''generationConfig'' kvs = Some (JObject g)"
    and ft: "\<forall>x. Temperature (Request_GenerationConfig ?r) = Some (Finite x) \<longrightarrow>
                field ''temperature'' g = Some (JNumber x)"
    by blast
  from k m have s: "sampleDocument = JObject kvs" by simp
  from imp n have u: "Unmarshal_Request sampleDocument = Inr ?r"
    and b: "json_decode samplelib (sample_encode sampleDocument) = Inr sampleDocument \<longrightarrow>
              json_Unmarshal_Request samplelib (sample_encode sampleDocument) = Inr ?r"
    unfolding s e by blast+
  from b d have b': "json_Unmarshal_Request samplelib (sample_encode sampleDocument) = Inr ?r"
    by blast
  from ft t have t0: "field ''temperature'' g = Some (JNumber 0)" by blast
  from jm have jm': "json_Marshal samplelib ?r = Inr (sample_encode sampleDocument)"
    unfolding s e .
  from v f n m u jm' d b' s fg t0 show ?thesis by blast
qed

text \<open>
  For valid generation parameters alone the round trip fails: the temperature \<open>+Inf\<close> is
  \<open>\<ge> 0\<close> and does not serialize; a text that is not valid UTF-8 comes back with U+FFFD
  in place of the offending byte; and a \<^verbatim>\<open>Tools\<close> slice that is empty and not nil is left out
  by \<^verbatim>\<open>omitempty\<close> and comes back nil.
\<close>

theorem Request_roundtrip_counterexample:
  "0 < MaxOutputTokens (Request_GenerationConfig (sampleRequest ''hello'' PosInf)) \<and>
   geZero PosInf \<and>
   Temperature (Request_GenerationConfig (sampleRequest ''hello'' PosInf)) = Some PosInf \<and>
   Marshal_Request (sampleRequest ''hello'' PosInf) = Inl ''json: unsupported value: +Inf'' \<and>
   0 < MaxOutputTokens (Request_GenerationConfig (sampleRequest [CHR 0xFF] (Finite 1))) \<and>
   geZero (Finite 1) \<and>
   Marshal_Request (sampleRequest [CHR 0xFF] (Finite 1))
     = Inr (JObject
              [(''contents'',
                  JArray [JObject [(''parts'',
                     JArray [JObject [(''text'', JString [CHR 0xEF, CHR 0xBF, CHR 0xBD])]])]]),
               (''generationConfig'',
                  JObject [(''maxOutputTokens'', JNumber 100), (''temperature'', JNumber 1)]),
               (''tools'', JArray [JObject [(''googleSearch'', JObject [])]])]) \<and>
   Unmarshal_Request
     (JObject
        [(''contents'',
            JArray [JObject [(''parts'',
               JArray [JObject [(''text'', JString [CHR 0xEF, CHR 0xBF, CHR 0xBD])]])]]),
         (''generationConfig'',
            JObject [(''maxOutputTokens'', JNumber 100), (''temperature'', JNumber 1)]),
         (''tools'', JArray [JObject [(''googleSearch'', JObject [])]])])
     = Inr (sampleRequest [CHR 0xEF, CHR 0xBF, CHR 0xBD] (Finite 1)) \<and>
   sampleRequest [CHR 0xEF, CHR 0xBF, CHR 0xBD] (Finite 1) \<noteq> sampleRequest [CHR 0xFF] (Finite 1) \<and>
   0 < MaxOutputTokens (Request_GenerationConfig
         ((sampleRequest ''hello'' (Finite 1))\<lparr>Request_Tools := Some []\<rparr>)) \<and>
   Marshal_Request ((sampleRequest ''hello'' (Finite 1))\<lparr>Request_Tools := Some []\<rparr>)
     = Inr (JObject
              [(''contents'',
                  JArray [JObject [(''parts'', JArray [JObject [(''text'', JString ''hello'')]])]]),
               (''generationConfig'',
                  JObject [(''maxOutputTokens'', JNumber 100), (''temperature'', JNumber 1)])]) \<and>
   Unmarshal_Request
     (JObject
        [(''contents'',
            JArray [JObject [(''parts'', JArray [JObject [(''text'', JString ''hello'')]])]]),
         (''generationConfig'',
            JObject [(''maxOutputTokens'', JNumber 100), (''temperature'', JNumber 1)])])
     = Inr ((sampleRequest ''hello'' (Finite 1))\<lparr>Request_Tools := None\<rparr>) \<and>
   (sampleRequest ''hello'' (Finite 1))\<lparr>Request_Tools := None\<rparr>
     \<noteq> (sampleRequest ''hello'' (Finite 1))\<lparr>Request_Tools := Some []\<rparr>"
proof -
  have h: "coerceUTF8 ''hello'' = ''hello''"
    by (intro coerceUTF8_valid) (simp add: ValidString.simps DecodeRuneInString_def RuneError_def)
  show ?thesis
    by (simp add: sampleRequest_def Marshal_Request_def Marshal_GenerationConfig_def
      Marshal_Content_def Marshal_Part_def Marshal_Tool_def coerceUTF8.simps [of "[CHR 0xFF]"]
      coerceUTF8.simps [of "[]"] h
      DecodeRuneInString_def RuneError_def Unmarshal_Request_def Unmarshal_list_def
      Unmarshal_slice_def
      Unmarshal_Content_def Unmarshal_Part_def Unmarshal_Tool_def Unmarshal_GenerationConfig_def
      Unmarshal_int_def Unmarshal_float64_ptr_def field_def)
qed

end
